theory Spec2Isabelle
  imports Main "HOL-Library.Word"
begin

unbundle bit_operations_syntax

section \<open>Webtris: the board and piece simulation of \<^verbatim>\<open>tetris.js\<close>\<close>

text \<open>
  The development follows \<^verbatim>\<open>src/tetris.js\<close>. Canvas drawing, gradients and audio are
  left out; everything that decides where blocks go, when the game ends and how score and
  level move is transcribed function by function, with the source's names. The loop
  counters \<^verbatim>\<open>i\<close>, \<^verbatim>\<open>j\<close> and \<^verbatim>\<open>k\<close> of the source are undeclared, hence global, but no loop
  body calls a function that runs a loop of its own, so each loop is modelled with
  counters of its own.
\<close>

subsection \<open>JavaScript values and arrays\<close>

text \<open>
  A grid or shape cell holds the number \<open>0\<close>, a \<^verbatim>\<open>GameBlock\<close> (of which only the colour
  index matters; \<^verbatim>\<open>size\<close> is the constant 20), or \<^verbatim>\<open>undefined\<close>, which is what reading
  an array outside its range yields.
\<close>

datatype cell = Zero | Undefined | GameBlock nat

text \<open>\<^verbatim>\<open>c instanceof GameBlock\<close>.\<close>

fun isGameBlock :: "cell \<Rightarrow> bool" where
  "isGameBlock (GameBlock c) = True"
| "isGameBlock Zero = False"
| "isGameBlock Undefined = False"

text \<open>
  Reading \<^verbatim>\<open>col[j]\<close> for a number \<open>j\<close>: \<^verbatim>\<open>undefined\<close> outside the array (a negative
  index is a property that was never set).
\<close>

definition cellAt :: "cell list \<Rightarrow> int \<Rightarrow> cell" where
  "cellAt col j = (if 0 \<le> j \<and> nat j < length col then col ! nat j else Undefined)"

text \<open>
  Writing \<^verbatim>\<open>arr[i] = v\<close> for \<open>i \<ge> 0\<close>: inside the array the element is replaced; beyond
  its end JavaScript extends the array, the skipped indices becoming holes (which read as
  \<open>hole\<close>).
\<close>

definition js_set :: "'a \<Rightarrow> 'a list \<Rightarrow> nat \<Rightarrow> 'a \<Rightarrow> 'a list" where
  "js_set hole arr i v =
     (if i < length arr then arr[i := v] else arr @ replicate (i - length arr) hole @ [v])"

text \<open>
  A JavaScript number as far as the score needs it: an integer, or \<^verbatim>\<open>NaN\<close> (the result
  of arithmetic on \<^verbatim>\<open>undefined\<close>). Every comparison with \<^verbatim>\<open>NaN\<close> is false. The code's
  numbers are binary64 doubles: sums and products of integers are exact as long as the
  result is at most \<open>2 ^ 53\<close> in absolute value, and are rounded beyond. \<open>js_add\<close> and
  \<open>js_mul\<close> are the exact operations, so they are the code's within that range only; a
  statement about the value of a score carries the bound that keeps it there.
\<close>

datatype jsnum = Num int | NaN

fun js_add :: "jsnum \<Rightarrow> jsnum \<Rightarrow> jsnum" where
  "js_add (Num a) (Num b) = Num (a + b)"
| "js_add _ _ = NaN"

fun js_mul :: "jsnum \<Rightarrow> jsnum \<Rightarrow> jsnum" where
  "js_mul (Num a) (Num b) = Num (a * b)"
| "js_mul _ _ = NaN"

fun js_gt :: "jsnum \<Rightarrow> jsnum \<Rightarrow> bool" where
  "js_gt (Num a) (Num b) = (a > b)"
| "js_gt _ _ = False"

text \<open>\<^verbatim>\<open>table[i]\<close> used as a number: \<^verbatim>\<open>undefined\<close>, hence \<^verbatim>\<open>NaN\<close>, outside the table.\<close>

definition tableAt :: "int list \<Rightarrow> nat \<Rightarrow> jsnum" where
  "tableAt table i = (if i < length table then Num (table ! i) else NaN)"

text \<open>
  A loop whose body may throw: the body is run on each element in turn, and the first
  \<open>None\<close> (a \<^verbatim>\<open>TypeError\<close>) ends the run.
\<close>

primrec forEach :: "('a \<Rightarrow> 's \<Rightarrow> 's option) \<Rightarrow> 'a list \<Rightarrow> 's \<Rightarrow> 's option" where
  "forEach body [] s = Some s"
| "forEach body (a # as) s = (case body a s of None \<Rightarrow> None | Some s' \<Rightarrow> forEach body as s')"

subsection \<open>The fixed tables of \<^verbatim>\<open>Game\<close>\<close>

record shapeDescription =
  shapeSize :: nat
  blocks :: "32 word list"
  color :: nat

datatype shapeKey = Shape_i | Shape_j | Shape_l | Shape_o | Shape_s | Shape_t | Shape_z

text \<open>\<^verbatim>\<open>this.shapes\<close>, and its keys in the order the \<^verbatim>\<open>for .. in\<close> of \<^verbatim>\<open>getRandomPiece\<close> collects them.\<close>

fun shapes :: "shapeKey \<Rightarrow> shapeDescription" where
  "shapes Shape_i = \<lparr>shapeSize = 4, blocks = [0x0F00, 0x2222, 0x00F0, 0x4444], color = 0\<rparr>"
| "shapes Shape_j = \<lparr>shapeSize = 4, blocks = [0x44C0, 0x8E00, 0x6440, 0x0E20], color = 1\<rparr>"
| "shapes Shape_l = \<lparr>shapeSize = 3, blocks = [0x4460, 0x0E80, 0xC440, 0x2E00], color = 2\<rparr>"
| "shapes Shape_o = \<lparr>shapeSize = 2, blocks = [0xCC00, 0xCC00, 0xCC00, 0xCC00], color = 3\<rparr>"
| "shapes Shape_s = \<lparr>shapeSize = 3, blocks = [0x06C0, 0x8C40, 0x6C00, 0x4620], color = 4\<rparr>"
| "shapes Shape_t = \<lparr>shapeSize = 3, blocks = [0x0E40, 0x4C40, 0x4E00, 0x4640], color = 5\<rparr>"
| "shapes Shape_z = \<lparr>shapeSize = 3, blocks = [0x0C60, 0x4C80, 0xC600, 0x2640], color = 6\<rparr>"

definition shapeKeys :: "shapeKey list" where
  "shapeKeys = [Shape_i, Shape_j, Shape_l, Shape_o, Shape_s, Shape_t, Shape_z]"

definition hexValues :: "32 word list list" where
  "hexValues =
     [[0x8000, 0x0800, 0x0080, 0x0008],
      [0x4000, 0x0400, 0x0040, 0x0004],
      [0x2000, 0x0200, 0x0020, 0x0002],
      [0x1000, 0x0100, 0x0010, 0x0001]]"

definition difficultyTimeouts :: "nat list" where
  "difficultyTimeouts = [1000, 750, 625, 500, 425, 300, 250, 225, 200, 175]"

definition pointsAwardedForLines :: "int list" where
  "pointsAwardedForLines = [40, 100, 300, 1200]"

definition scorePerLevel :: "int list" where
  "scorePerLevel =
     [1200, 1200 * 4, 1200 * 8, 1200 * 16, 1200 * 32, 1200 * 64, 1200 * 128, 1200 * 256,
      1200 * 512]"

text \<open>
  \<^verbatim>\<open>indexContainsBlock(i, j, shape)\<close>: whether \<^verbatim>\<open>hexValues[i][j] & shape\<close> is non-zero.
  Its callers run \<open>i\<close> and \<open>j\<close> below 4.
\<close>

definition indexContainsBlock :: "nat \<Rightarrow> nat \<Rightarrow> 32 word \<Rightarrow> bool" where
  "indexContainsBlock i j shape = (hexValues ! i ! j AND shape \<noteq> 0)"

subsection \<open>\<^verbatim>\<open>GamePiece\<close>\<close>

text \<open>
  A piece by value. Its \<^verbatim>\<open>height\<close> and \<^verbatim>\<open>width\<close> are set to the literal 4 by the
  constructor, copied by \<^verbatim>\<open>isValidMove\<close> and assigned nowhere else, so they are the
  constants \<open>pieceHeight\<close> and \<open>pieceWidth\<close>. The fields of \<^verbatim>\<open>position\<close> are called
  \<open>posX\<close> and \<open>posY\<close>.
\<close>

definition pieceHeight :: nat where "pieceHeight = 4"
definition pieceWidth :: nat where "pieceWidth = 4"

record position =
  posX :: int
  posY :: int

record GamePiece =
  shapeDescription :: shapeDescription
  rotation :: nat
  shapeArray :: "cell list list"
  position :: position

text \<open>\<^verbatim>\<open>new GamePiece(game, shape)\<close> for a key of \<^verbatim>\<open>shapes\<close>.\<close>

definition newGamePiece :: "shapeKey \<Rightarrow> GamePiece" where
  "newGamePiece k =
     \<lparr>shapeDescription = shapes k, rotation = 0, shapeArray = [],
      position = \<lparr>posX = 0, posY = 0\<rparr>\<rparr>"

text \<open>
  \<^verbatim>\<open>this.shapeDescription.blocks[this.rotation]\<close> as the operand of \<^verbatim>\<open>&\<close>: outside the
  list it is \<^verbatim>\<open>undefined\<close>, which \<^verbatim>\<open>&\<close> reads as 0.
\<close>

definition currentShape :: "shapeDescription \<Rightarrow> nat \<Rightarrow> 32 word" where
  "currentShape sd r = (if r < length (blocks sd) then blocks sd ! r else 0)"

text \<open>
  The inner loop of \<^verbatim>\<open>computeShape\<close> fills the fresh array \<^verbatim>\<open>shapeArray[i]\<close> at
  \<open>j = 0, 1, 2, 3\<close>; the outer loop stores one such array at each \<open>i = 0, 1, 2, 3\<close> of the
  piece's existing \<^verbatim>\<open>shapeArray\<close> (indices are written in ascending order, so no hole
  arises).
\<close>

definition computeColumn :: "shapeDescription \<Rightarrow> nat \<Rightarrow> nat \<Rightarrow> cell list" where
  "computeColumn sd r i =
     map (\<lambda>j. if indexContainsBlock i j (currentShape sd r) then GameBlock (color sd) else Zero)
       [0..<pieceWidth]"

definition computeShape :: "GamePiece \<Rightarrow> GamePiece" where
  "computeShape p =
     p\<lparr>shapeArray :=
         fold (\<lambda>i arr. js_set [] arr i (computeColumn (shapeDescription p) (rotation p) i))
           [0..<pieceHeight] (shapeArray p)\<rparr>"

text \<open>
  \<^verbatim>\<open>rotate\<close>, here \<open>rotatePiece\<close>: the rotation index steps through 0, 1, 2, 3 and the
  shape array is replaced by an empty one.
\<close>

definition rotatePiece :: "GamePiece \<Rightarrow> GamePiece" where
  "rotatePiece p = (p\<lparr>rotation := (if rotation p \<le> 2 then rotation p + 1 else 0)\<rparr>)\<lparr>shapeArray := []\<rparr>"

text \<open>\<^verbatim>\<open>move(direction)\<close>: a \<^verbatim>\<open>switch\<close> on the string with no default case.\<close>

definition move :: "string \<Rightarrow> GamePiece \<Rightarrow> GamePiece" where
  "move direction p =
     (if direction = ''right'' then p\<lparr>position := (position p)\<lparr>posX := posX (position p) + 1\<rparr>\<rparr>
      else if direction = ''left'' then p\<lparr>position := (position p)\<lparr>posX := posX (position p) - 1\<rparr>\<rparr>
      else if direction = ''down'' then p\<lparr>position := (position p)\<lparr>posY := posY (position p) + 1\<rparr>\<rparr>
      else p)"

subsection \<open>\<^verbatim>\<open>GameBoard\<close>\<close>

text \<open>
  The board object: \<^verbatim>\<open>width\<close>, \<^verbatim>\<open>height\<close> and the two-dimensional array, which the
  source calls \<^verbatim>\<open>gameBoard\<close> like the field of \<^verbatim>\<open>Game\<close> that holds the board; here the
  array is \<open>grid\<close>. It is indexed \<^verbatim>\<open>[x][y]\<close>: a list of columns.
\<close>

record GameBoard =
  width :: nat
  height :: nat
  grid :: "cell list list"

text \<open>The constructor fills \<open>width\<close> columns of \<open>height\<close> zeros.\<close>

definition newGameBoard :: "nat \<Rightarrow> nat \<Rightarrow> GameBoard" where
  "newGameBoard w h = \<lparr>width = w, height = h, grid = replicate w (replicate h Zero)\<rparr>"

text \<open>
  What the constructor establishes and every method that writes the grid in place relies
  on: the grid has \<^verbatim>\<open>width\<close> columns, each of \<^verbatim>\<open>height\<close> cells.
\<close>

definition boardOK :: "GameBoard \<Rightarrow> bool" where
  "boardOK b = (length (grid b) = width b \<and> list_all (\<lambda>col. length col = height b) (grid b))"

text \<open>
  \<^verbatim>\<open>isOnBoard\<close> reads the bounds from the array itself. \<^verbatim>\<open>&&\<close> evaluates
  \<^verbatim>\<open>this.gameBoard[0].length\<close> only after \<open>0 \<le> x < gameBoard.length\<close>, when column 0 exists.
\<close>

definition isOnBoard :: "GameBoard \<Rightarrow> int \<Rightarrow> int \<Rightarrow> bool" where
  "isOnBoard b x y =
     (x \<ge> 0 \<and> y \<ge> 0 \<and> x < int (length (grid b)) \<and>
      y < int (case grid b of [] \<Rightarrow> 0 | column0 # _ \<Rightarrow> length column0))"

definition isOccupied :: "GameBoard \<Rightarrow> int \<Rightarrow> int \<Rightarrow> bool" where
  "isOccupied b x y =
     (if \<not> isOnBoard b x y then True
      else isGameBlock (cellAt (grid b ! nat x) y))"

definition isUnoccupied :: "GameBoard \<Rightarrow> int \<Rightarrow> int \<Rightarrow> bool" where
  "isUnoccupied b x y = (\<not> isOccupied b x y)"

text \<open>
  \<^verbatim>\<open>isValidMove\<close>, on values. The clone takes the shape description, the rotation and a
  new position object with the same coordinates; its \<^verbatim>\<open>shapeArray\<close> is the empty array
  of the constructor.
\<close>

definition clonePiece :: "GamePiece \<Rightarrow> GamePiece" where
  "clonePiece gamePiece =
     \<lparr>shapeDescription = shapeDescription gamePiece, rotation = rotation gamePiece,
      shapeArray = [],
      position = \<lparr>posX = posX (position gamePiece), posY = posY (position gamePiece)\<rparr>\<rparr>"

definition simulate :: "string \<Rightarrow> GamePiece \<Rightarrow> GamePiece" where
  "simulate direction tmpPiece =
     (if direction = ''rotate'' then rotatePiece tmpPiece
      else if direction = ''left'' \<or> direction = ''right'' \<or> direction = ''down''
        then move direction tmpPiece
      else tmpPiece)"

text \<open>
  The two collision loops return \<^verbatim>\<open>false\<close> at the first block of the clone that is off
  the board or on an occupied cell, and \<^verbatim>\<open>true\<close> when none is. They run right after
  \<^verbatim>\<open>computeShape\<close> has written \<^verbatim>\<open>shapeArray[i][j]\<close> for all \<open>i, j < 4\<close>, so these reads
  are in range.
\<close>

definition blockCollides :: "GameBoard \<Rightarrow> GamePiece \<Rightarrow> nat \<times> nat \<Rightarrow> bool" where
  "blockCollides b tmpPiece ij =
     (case ij of (i, j) \<Rightarrow>
        isGameBlock (shapeArray tmpPiece ! i ! j) \<and>
        (\<not> isOnBoard b (posX (position tmpPiece) + int i) (posY (position tmpPiece) + int j) \<or>
         isOccupied b (posX (position tmpPiece) + int i) (posY (position tmpPiece) + int j)))"

definition isValidMove :: "GameBoard \<Rightarrow> GamePiece \<Rightarrow> string \<Rightarrow> bool" where
  "isValidMove b gamePiece direction =
     (let tmpPiece = computeShape (simulate direction (clonePiece gamePiece))
      in list_all (\<lambda>ij. \<not> blockCollides b tmpPiece ij)
           (List.product [0..<pieceHeight] [0..<pieceWidth]))"

text \<open>
  \<^verbatim>\<open>checkLines\<close>. A row is scanned column by column up to \<^verbatim>\<open>this.width\<close>, stopping at
  the first cell that is no block; \<^verbatim>\<open>this.gameBoard[i]\<close> for a column the array does not
  have is \<^verbatim>\<open>undefined\<close>, and indexing it throws (\<open>None\<close>).
\<close>

primrec lineComplete :: "cell list list \<Rightarrow> int \<Rightarrow> nat list \<Rightarrow> bool option" where
  "lineComplete g j [] = Some True"
| "lineComplete g j (i # rest) =
     (if i < length g
      then (if isGameBlock (cellAt (g ! i) j) then lineComplete g j rest else Some False)
      else None)"

primrec scanLines :: "GameBoard \<Rightarrow> int list \<Rightarrow> int list \<Rightarrow> int list option" where
  "scanLines b [] completedLines = Some completedLines"
| "scanLines b (j # rest) completedLines =
     (case lineComplete (grid b) j [0..<width b] of
        None \<Rightarrow> None
      | Some complete \<Rightarrow>
          scanLines b rest (if complete then completedLines @ [j] else completedLines))"

definition checkLines :: "GameBoard \<Rightarrow> GamePiece option \<Rightarrow> int list option" where
  "checkLines b gamePiece =
     (let minY = (case gamePiece of Some p \<Rightarrow> posY (position p) | None \<Rightarrow> 0);
          maxY = (case gamePiece of Some p \<Rightarrow> minY + int pieceHeight | None \<Rightarrow> int (height b))
      in scanLines b [minY..maxY - 1] [])"

subsection \<open>\<^verbatim>\<open>Game\<close> and \<^verbatim>\<open>GameStats\<close>\<close>

text \<open>
  The state of an initialised game (after \<^verbatim>\<open>init()\<close>, which creates the board, the
  stats and the next piece). \<open>score\<close> is \<^verbatim>\<open>gameStats.score\<close>. Three fields stand for the
  environment: \<open>intervals\<close> holds the delay of every interval timer that is armed, by id,
  \<open>nextIntervalId\<close> is the id the next \<^verbatim>\<open>setInterval\<close> returns, and \<open>randomKeys\<close> is the
  sequence of shape keys that the coming calls of \<^verbatim>\<open>getRandomPiece\<close> draw.
\<close>

record Game =
  difficulty :: nat
  isRunning :: bool
  isPaused :: bool
  isGameOver :: bool
  ticker :: "nat option"
  score :: jsnum
  gameBoard :: GameBoard
  gamePiece :: "GamePiece option"
  nextPiece :: GamePiece
  boardWidth :: nat
  boardHeight :: nat
  intervals :: "nat \<rightharpoonup> nat"
  nextIntervalId :: nat
  randomKeys :: "nat \<Rightarrow> shapeKey"

text \<open>\<^verbatim>\<open>if (this.ticker)\<close>: \<^verbatim>\<open>null\<close> and the number 0 count as false.\<close>

definition truthy :: "nat option \<Rightarrow> bool" where
  "truthy t = (case t of None \<Rightarrow> False | Some i \<Rightarrow> i \<noteq> 0)"

text \<open>\<^verbatim>\<open>clearInterval(t)\<close> disarms timer \<open>t\<close>; with \<^verbatim>\<open>null\<close> it does nothing.\<close>

definition clearInterval :: "nat option \<Rightarrow> Game \<Rightarrow> Game" where
  "clearInterval t g =
     (case t of None \<Rightarrow> g | Some i \<Rightarrow> g\<lparr>intervals := (intervals g)(i := None)\<rparr>)"

text \<open>
  \<^verbatim>\<open>this.ticker = setInterval(this.gameTick, this.difficultyTimeouts[this.difficulty])\<close>;
  a delay read outside the table is \<^verbatim>\<open>undefined\<close>, which the timer takes as 0.
\<close>

definition armTicker :: "Game \<Rightarrow> Game" where
  "armTicker g =
     g\<lparr>ticker := Some (nextIntervalId g),
       intervals := (intervals g)(nextIntervalId g \<mapsto>
          (if difficulty g < length difficultyTimeouts then difficultyTimeouts ! difficulty g
           else 0)),
       nextIntervalId := nextIntervalId g + 1\<rparr>"

definition resetTimer :: "Game \<Rightarrow> Game" where
  "resetTimer g = armTicker (clearInterval (ticker g) g)"

definition addScore :: "jsnum \<Rightarrow> Game \<Rightarrow> Game" where
  "addScore val g =
     (let g1 = g\<lparr>score := js_add (score g) val\<rparr>
      in if js_gt (score g1) (tableAt scorePerLevel (difficulty g1))
         then (if difficulty g1 < 9
               then resetTimer (g1\<lparr>difficulty := difficulty g1 + 1\<rparr>)
               else g1)
         else g1)"

text \<open>\<^verbatim>\<open>getRandomPiece\<close> draws the next key of the sequence.\<close>

definition getRandomPiece :: "Game \<Rightarrow> GamePiece \<times> Game" where
  "getRandomPiece g =
     (newGamePiece (randomKeys g 0), g\<lparr>randomKeys := (\<lambda>n. randomKeys g (Suc n))\<rparr>)"

text \<open>
  \<^verbatim>\<open>clearLines\<close>. For each row of the sorted list, \<open>j\<close> runs from the row up to 0 and
  \<open>k\<close> over \<^verbatim>\<open>this.width\<close> columns; \<^verbatim>\<open>this.gameBoard[k]\<close> for a column the array does not
  have throws. The score is tallied before the rows are moved.
\<close>

definition shiftCell :: "int \<Rightarrow> nat \<Rightarrow> cell list list \<Rightarrow> cell list list option" where
  "shiftCell j k g =
     (if k < length g
      then Some (g[k := js_set Undefined (g ! k) (nat j)
                          (if j > 0 then cellAt (g ! k) (j - 1) else Zero)])
      else None)"

definition collapseRow :: "nat \<Rightarrow> int \<Rightarrow> cell list list \<Rightarrow> cell list list option" where
  "collapseRow w rowNum g =
     forEach (\<lambda>j. forEach (\<lambda>k. shiftCell j k) [0..<w]) (rev [0..rowNum]) g"

definition clearLines :: "int list \<Rightarrow> Game \<Rightarrow> Game option" where
  "clearLines completedLines g =
     (if length completedLines > 0
      then
        (let sortedLines = sort completedLines;
             g1 = addScore (js_mul (tableAt pointsAwardedForLines (length sortedLines - 1))
                                   (Num (int (difficulty g) + 1))) g
         in case forEach (collapseRow (width (gameBoard g1))) sortedLines (grid (gameBoard g1)) of
              None \<Rightarrow> None
            | Some cells \<Rightarrow> Some (g1\<lparr>gameBoard := (gameBoard g1)\<lparr>grid := cells\<rparr>\<rparr>))
      else Some g)"

text \<open>
  \<^verbatim>\<open>selectNextPiece\<close>, \<^verbatim>\<open>togglePause\<close>, \<^verbatim>\<open>reset\<close> and \<^verbatim>\<open>start\<close> call one another:
  a failed spawn toggles the pause, toggling the pause of a paused game that is over
  resets it, and a reset starts the game, which spawns. The calls to \<^verbatim>\<open>gameMusic\<close> are
  left out. The spawn position is \<^verbatim>\<open>{x: Math.ceil((width - size) / 2), y: 0}\<close>; for an
  integer \<open>n\<close> the ceiling of \<open>n / 2\<close> is \<open>(n + 1) div 2\<close>, \<open>div\<close> rounding down.
\<close>

definition spawnPosition :: "GameBoard \<Rightarrow> GamePiece \<Rightarrow> position" where
  "spawnPosition b p =
     \<lparr>posX = (int (width b) - int (shapeSize (shapeDescription p)) + 1) div 2, posY = 0\<rparr>"

function selectNextPiece :: "Game \<Rightarrow> Game"
  and togglePause :: "Game \<Rightarrow> Game"
  and reset :: "Game \<Rightarrow> Game"
  and start :: "Game \<Rightarrow> Game"
where
  "selectNextPiece g =
     (let spawned = (nextPiece g)\<lparr>position := spawnPosition (gameBoard g) (nextPiece g)\<rparr>;
          g1 = (snd (getRandomPiece g))\<lparr>gamePiece := Some spawned,
                                         nextPiece := fst (getRandomPiece g)\<rparr>
      in if isValidMove (gameBoard g1) spawned ''down'' then g1
         else togglePause (g1\<lparr>isGameOver := True\<rparr>))"
| "togglePause g =
     (if \<not> isPaused g
      then (clearInterval (ticker g) g)\<lparr>ticker := None, isPaused := True\<rparr>
      else if isGameOver g then reset g
      else (armTicker g)\<lparr>isPaused := False\<rparr>)"
| "reset g =
     (let g1 = (clearInterval (ticker g) g)
                 \<lparr>ticker := None, difficulty := 0, isGameOver := False, isRunning := False,
                  isPaused := False,
                  gameBoard := newGameBoard (boardWidth g) (boardHeight g),
                  score := Num 0, gamePiece := None\<rparr>
      in start ((snd (getRandomPiece g1))\<lparr>nextPiece := fst (getRandomPiece g1)\<rparr>))"
| "start g =
     (if \<not> isRunning g
      then (let g1 = selectNextPiece g;
                g2 = (if truthy (ticker g1) then clearInterval (ticker g1) g1 else g1)
            in (armTicker g2)\<lparr>isRunning := True\<rparr>)
      else g)"
  by pat_completeness auto
termination
  by (relation "measure (\<lambda>c. case c of
          Inl (Inl g) \<Rightarrow> (if isPaused g then 5 else 1)
        | Inl (Inr g) \<Rightarrow> (if isPaused g then 4 else 0)
        | Inr (Inl g) \<Rightarrow> 3
        | Inr (Inr g) \<Rightarrow> (if isPaused g then 6 else 2))")
     (auto simp: getRandomPiece_def clearInterval_def split: option.splits)

declare selectNextPiece.simps [simp del] togglePause.simps [simp del]
  reset.simps [simp del] start.simps [simp del]

text \<open>
  \<^verbatim>\<open>bakePiece(gamePiece)\<close>. The copy loops read the piece from \<^verbatim>\<open>this.game.gamePiece\<close>
  (\<^verbatim>\<open>rawPiece\<close>), not from the argument; the argument is tested with \<^verbatim>\<open>instanceof\<close>
  (\<open>None\<close> stands for an argument that is no piece) and passed on to \<^verbatim>\<open>checkLines\<close>.
  Reading a field of \<^verbatim>\<open>rawPiece\<close> when the game has no piece throws, and so does
  \<^verbatim>\<open>rawPiece.shapeArray[i][j]\<close> when \<^verbatim>\<open>shapeArray\<close> has no column \<open>i\<close>; where it has,
  the read is \<open>pieceCell rawPiece i j\<close>. The cache invalidation and the drawing that end
  the function are left out.
\<close>

definition pieceCell :: "GamePiece \<Rightarrow> nat \<Rightarrow> nat \<Rightarrow> cell" where
  "pieceCell p i j = cellAt (shapeArray p ! i) (int j)"

definition bakeCell :: "GamePiece \<Rightarrow> nat \<times> nat \<Rightarrow> GameBoard \<Rightarrow> GameBoard option" where
  "bakeCell rawPiece ij b =
     (case ij of (i, j) \<Rightarrow>
        (let boardX = posX (position rawPiece) + int i;
             boardY = posY (position rawPiece) + int j
         in if isOnBoard b boardX boardY
            then (if i < length (shapeArray rawPiece)
                  then (let block = pieceCell rawPiece i j
                        in if isGameBlock block
                           then Some (b\<lparr>grid := (grid b)[nat boardX :=
                                   js_set Undefined (grid b ! nat boardX) (nat boardY) block]\<rparr>)
                           else Some b)
                  else None)
            else Some b))"

definition copyPiece :: "GamePiece \<Rightarrow> GameBoard \<Rightarrow> GameBoard option" where
  "copyPiece rawPiece b =
     forEach (bakeCell rawPiece) (List.product [0..<pieceHeight] [0..<pieceWidth]) b"

definition bakePiece :: "GamePiece option \<Rightarrow> Game \<Rightarrow> Game option" where
  "bakePiece arg g =
     (case arg of
        None \<Rightarrow> Some g
      | Some piece \<Rightarrow>
          (case gamePiece g of
             None \<Rightarrow> None
           | Some rawPiece \<Rightarrow>
               (case copyPiece rawPiece (gameBoard g) of
                  None \<Rightarrow> None
                | Some b1 \<Rightarrow>
                    (case checkLines b1 (Some piece) of
                       None \<Rightarrow> None
                     | Some completedLines \<Rightarrow>
                         (case clearLines completedLines (g\<lparr>gameBoard := b1\<rparr>) of
                            None \<Rightarrow> None
                          | Some g2 \<Rightarrow> Some (selectNextPiece g2))))))"

subsection \<open>\<^verbatim>\<open>isValidMove\<close> on a store of objects\<close>

text \<open>
  Whether \<^verbatim>\<open>isValidMove\<close> changes the piece it is given depends on which objects its
  clone shares with that piece, so here pieces, position objects and shape arrays live in
  a store and are named by references. A piece object holds references to its position
  object and to its shape array; \<^verbatim>\<open>shapeDescription\<close> is \<^verbatim>\<open>undefined\<close> (\<open>None\<close>) in a
  piece constructed with the key \<^verbatim>\<open>null\<close>. \<open>liveBoard\<close> is the board the method belongs
  to. \<open>None\<close> as a result is a \<^verbatim>\<open>TypeError\<close>.
\<close>

type_synonym ref = nat

record pieceObject =
  shapeDescriptionOf :: "shapeDescription option"
  rotationOf :: nat
  shapeArrayRef :: ref
  positionRef :: ref

record store =
  pieceObjects :: "ref \<rightharpoonup> pieceObject"
  positionObjects :: "ref \<rightharpoonup> position"
  arrayObjects :: "ref \<rightharpoonup> cell list list"
  nextRef :: ref
  liveBoard :: GameBoard

text \<open>
  \<^verbatim>\<open>new GamePiece(game, shape)\<close>: the new object, then the empty array for
  \<^verbatim>\<open>shapeArray\<close>, then the object \<^verbatim>\<open>{x: 0, y: 0}\<close> for \<^verbatim>\<open>position\<close>.
\<close>

definition newGamePiece_s :: "shapeKey option \<Rightarrow> store \<Rightarrow> ref \<times> store" where
  "newGamePiece_s key s =
     (nextRef s,
      s\<lparr>pieceObjects := (pieceObjects s)(nextRef s \<mapsto>
           \<lparr>shapeDescriptionOf = map_option shapes key, rotationOf = 0,
            shapeArrayRef = nextRef s + 1, positionRef = nextRef s + 2\<rparr>),
        arrayObjects := (arrayObjects s)(nextRef s + 1 \<mapsto> []),
        positionObjects := (positionObjects s)(nextRef s + 2 \<mapsto> \<lparr>posX = 0, posY = 0\<rparr>),
        nextRef := nextRef s + 3\<rparr>)"

text \<open>\<^verbatim>\<open>rotate\<close> points \<^verbatim>\<open>this.shapeArray\<close> to a new empty array.\<close>

definition rotate_s :: "ref \<Rightarrow> store \<Rightarrow> store option" where
  "rotate_s this s =
     (case pieceObjects s this of
        None \<Rightarrow> None
      | Some ob \<Rightarrow>
          Some (s\<lparr>pieceObjects := (pieceObjects s)(this \<mapsto>
                     ob\<lparr>rotationOf := (if rotationOf ob \<le> 2 then rotationOf ob + 1 else 0),
                        shapeArrayRef := nextRef s\<rparr>),
                   arrayObjects := (arrayObjects s)(nextRef s \<mapsto> []),
                   nextRef := nextRef s + 1\<rparr>))"

text \<open>\<^verbatim>\<open>move\<close> assigns to a field of the object that \<^verbatim>\<open>this.position\<close> refers to.\<close>

definition move_s :: "string \<Rightarrow> ref \<Rightarrow> store \<Rightarrow> store option" where
  "move_s direction this s =
     (case pieceObjects s this of
        None \<Rightarrow> None
      | Some ob \<Rightarrow>
          (if direction = ''right'' \<or> direction = ''left'' \<or> direction = ''down''
           then (case positionObjects s (positionRef ob) of
                   None \<Rightarrow> None
                 | Some pos \<Rightarrow>
                     Some (s\<lparr>positionObjects := (positionObjects s)(positionRef ob \<mapsto>
                        (if direction = ''right'' then pos\<lparr>posX := posX pos + 1\<rparr>
                         else if direction = ''left'' then pos\<lparr>posX := posX pos - 1\<rparr>
                         else pos\<lparr>posY := posY pos + 1\<rparr>))\<rparr>))
           else Some s))"

text \<open>\<^verbatim>\<open>computeShape\<close> writes into the array that \<^verbatim>\<open>this.shapeArray\<close> refers to.\<close>

definition computeShape_s :: "ref \<Rightarrow> store \<Rightarrow> store option" where
  "computeShape_s this s =
     (case pieceObjects s this of
        None \<Rightarrow> None
      | Some ob \<Rightarrow>
          (case arrayObjects s (shapeArrayRef ob) of
             None \<Rightarrow> None
           | Some arr \<Rightarrow>
               (case shapeDescriptionOf ob of
                  None \<Rightarrow> None
                | Some sd \<Rightarrow>
                    Some (s\<lparr>arrayObjects := (arrayObjects s)(shapeArrayRef ob \<mapsto>
                       fold (\<lambda>i a. js_set [] a i (computeColumn sd (rotationOf ob) i))
                         [0..<pieceHeight] arr)\<rparr>))))"

text \<open>The piece at a reference, read out of the store as a value.\<close>

definition readPiece :: "store \<Rightarrow> ref \<Rightarrow> GamePiece option" where
  "readPiece s r =
     (case pieceObjects s r of
        None \<Rightarrow> None
      | Some ob \<Rightarrow>
          (case (shapeDescriptionOf ob, arrayObjects s (shapeArrayRef ob),
                 positionObjects s (positionRef ob)) of
             (Some sd, Some arr, Some pos) \<Rightarrow>
               Some \<lparr>shapeDescription = sd, rotation = rotationOf ob, shapeArray = arr,
                     position = pos\<rparr>
           | _ \<Rightarrow> None))"

text \<open>
  A piece of the store whose object, position object and shape array were all allocated
  before \<open>nextRef\<close>.
\<close>

definition allocated :: "store \<Rightarrow> ref \<Rightarrow> bool" where
  "allocated s r =
     (case pieceObjects s r of
        None \<Rightarrow> False
      | Some ob \<Rightarrow> r < nextRef s \<and> shapeArrayRef ob < nextRef s \<and> positionRef ob < nextRef s)"

text \<open>
  \<^verbatim>\<open>isValidMove(gamePiece, direction)\<close> statement by statement: the clone is constructed
  with the key \<^verbatim>\<open>null\<close>, takes the description and the rotation of \<^verbatim>\<open>gamePiece\<close>, and
  gets a new position object with the coordinates of \<^verbatim>\<open>gamePiece.position\<close>; the action
  and \<^verbatim>\<open>computeShape\<close> run on the clone; the collision loops read the clone and the
  board. The result is the answer together with the store the call leaves behind.
\<close>

definition isValidMove_s :: "ref \<Rightarrow> string \<Rightarrow> store \<Rightarrow> (bool \<times> store) option" where
  "isValidMove_s piece direction s =
     (case newGamePiece_s None s of (tmpPiece, s1) \<Rightarrow>
        (case pieceObjects s1 piece of
           None \<Rightarrow> None
         | Some ob \<Rightarrow>
             (case positionObjects s1 (positionRef ob) of
                None \<Rightarrow> None
              | Some pos \<Rightarrow>
                  (let s2 = s1\<lparr>pieceObjects := (pieceObjects s1)(tmpPiece \<mapsto>
                                  (the (pieceObjects s1 tmpPiece))
                                    \<lparr>shapeDescriptionOf := shapeDescriptionOf ob,
                                     rotationOf := rotationOf ob,
                                     positionRef := nextRef s1\<rparr>),
                                positionObjects := (positionObjects s1)(nextRef s1 \<mapsto>
                                  \<lparr>posX = posX pos, posY = posY pos\<rparr>),
                                nextRef := nextRef s1 + 1\<rparr>
                   in case (if direction = ''rotate'' then rotate_s tmpPiece s2
                            else if direction = ''left'' \<or> direction = ''right'' \<or>
                                    direction = ''down''
                              then move_s direction tmpPiece s2
                            else Some s2) of
                        None \<Rightarrow> None
                      | Some s3 \<Rightarrow>
                          (case computeShape_s tmpPiece s3 of
                             None \<Rightarrow> None
                           | Some s4 \<Rightarrow>
                               (case readPiece s4 tmpPiece of
                                  None \<Rightarrow> None
                                | Some tmp \<Rightarrow>
                                    Some (list_all (\<lambda>ij. \<not> blockCollides (liveBoard s4) tmp ij)
                                            (List.product [0..<pieceHeight] [0..<pieceWidth]),
                                          s4)))))))"

subsection \<open>The reference formulation of a line clear\<close>

text \<open>
  What one pass of the \<open>k\<close> loop of \<^verbatim>\<open>clearLines\<close> does to a single column at row \<open>j\<close>.
\<close>

definition colStep :: "int \<Rightarrow> cell list \<Rightarrow> cell list" where
  "colStep j col = js_set Undefined col (nat j) (if j > 0 then cellAt col (j - 1) else Zero)"

text \<open>
  What the specification gives as the net effect of \<^verbatim>\<open>clearLines\<close>: all completed rows
  are deleted and as many empty rows are put on top. On a grid of columns, each column
  loses its cells in the completed rows and gets as many zeros in front.
\<close>

definition deleteRows :: "int list \<Rightarrow> cell list \<Rightarrow> cell list" where
  "deleteRows completedLines col =
     map fst (filter (\<lambda>cj. int (snd cj) \<notin> set completedLines) (zip col [0..<length col]))"

definition clearLines_reference :: "int list \<Rightarrow> cell list list \<Rightarrow> cell list list" where
  "clearLines_reference completedLines g =
     map (\<lambda>col. replicate (length col - length (deleteRows completedLines col)) Zero
                @ deleteRows completedLines col) g"

subsection \<open>Drawing\<close>

text \<open>
  \<^verbatim>\<open>Game.draw\<close>, as far as the state goes: \<^verbatim>\<open>GamePiece.draw\<close> calls \<^verbatim>\<open>computeShape\<close> when
  \<^verbatim>\<open>shapeArray.length === 0\<close>, for the piece in play (if any) and for the next piece. The
  painting is left out. \<^verbatim>\<open>init\<close>, every key handler and every tick end with it.
\<close>

definition drawPiece :: "GamePiece \<Rightarrow> GamePiece" where
  "drawPiece p = (if length (shapeArray p) = 0 then computeShape p else p)"

definition draw :: "Game \<Rightarrow> Game" where
  "draw g = g\<lparr>gamePiece := map_option drawPiece (gamePiece g),
              nextPiece := drawPiece (nextPiece g)\<rparr>"

subsection \<open>Example states\<close>

text \<open>
  A game on a board of 1 by 4 cells as \<^verbatim>\<open>init\<close> leaves it (the next piece, an I, drawn;
  no timer armed), and the state after the space key has started it: \<^verbatim>\<open>start\<close> followed
  by the \<^verbatim>\<open>draw\<close> that ends the key handler. The I spawns at \<open>x = -1\<close> and cannot move
  down, so that game is over and paused, yet \<^verbatim>\<open>start\<close> has armed the ticker.
\<close>

definition narrowInit :: Game where
  "narrowInit =
     \<lparr>difficulty = 0, isRunning = False, isPaused = False, isGameOver = False,
      ticker = None, score = Num 0, gameBoard = newGameBoard 1 4, gamePiece = None,
      nextPiece = drawPiece (newGamePiece Shape_i), boardWidth = 1, boardHeight = 4,
      intervals = Map.empty, nextIntervalId = 1, randomKeys = (\<lambda>n. Shape_i)\<rparr>"

definition gameNarrow :: Game where
  "gameNarrow = draw (start narrowInit)"

definition pieceNarrow :: GamePiece where
  "pieceNarrow =
     computeShape ((newGamePiece Shape_i)\<lparr>position := \<lparr>posX = - 1, posY = 0\<rparr>\<rparr>)"


text \<open>A T piece in its second rotation, with its shape array computed.\<close>

definition piece_t1 :: GamePiece where
  "piece_t1 =
     computeShape ((newGamePiece Shape_t)\<lparr>rotation := 1, position := \<lparr>posX = 3, posY = 5\<rparr>\<rparr>)"

text \<open>An I piece in its second rotation (the vertical bar in column 2 of its mask), at the origin.\<close>

definition piece_i1 :: GamePiece where
  "piece_i1 = computeShape ((newGamePiece Shape_i)\<lparr>rotation := 1\<rparr>)"

text \<open>The O piece resting on the floor of a board of height 20.\<close>

definition piece_o :: GamePiece where
  "piece_o = computeShape ((newGamePiece Shape_o)\<lparr>position := \<lparr>posX = 4, posY = 18\<rparr>\<rparr>)"

text \<open>
  A running game at level 0 on an empty board of 10 by 20 cells; the O piece is in play, an I piece is next, and timer 1 is armed with 1000 ms.
\<close>

definition game0 :: Game where
  "game0 =
     \<lparr>difficulty = 0, isRunning = True, isPaused = False, isGameOver = False,
      ticker = Some 1, score = Num 0, gameBoard = newGameBoard 10 20,
      gamePiece = Some piece_o,
      nextPiece = newGamePiece Shape_i, boardWidth = 10, boardHeight = 20,
      intervals = [1 \<mapsto> 1000], nextIntervalId = 2, randomKeys = (\<lambda>n. Shape_o)\<rparr>"

text \<open>The same board with column 3 filled from row 2 down, which blocks the spawn of the I.\<close>

definition blockedBoard :: GameBoard where
  "blockedBoard =
     \<lparr>width = 10, height = 20,
      grid = (replicate 10 (replicate 20 Zero))
               [3 := replicate 2 Zero @ replicate 18 (GameBlock 1)]\<rparr>"

definition gameBlocked :: Game where
  "gameBlocked = game0\<lparr>gameBoard := blockedBoard\<rparr>"

text \<open>
  A game on a board of 10 by 1 cells, where no piece can spawn; the I that failed to spawn
  is the game's piece, its shape array computed.
\<close>

definition pieceSpawn :: GamePiece where
  "pieceSpawn = computeShape ((newGamePiece Shape_i)\<lparr>position := \<lparr>posX = 3, posY = 0\<rparr>\<rparr>)"

definition gameFlat :: Game where
  "gameFlat =
     game0\<lparr>gameBoard := newGameBoard 10 1, gamePiece := Some pieceSpawn, boardHeight := 1\<rparr>"

text \<open>A board of 3 by 6 cells whose rows 2 and 3 are complete.\<close>

definition linesBoard :: GameBoard where
  "linesBoard =
     \<lparr>width = 3, height = 6,
      grid = [[Zero, GameBlock 1, GameBlock 2, GameBlock 3, Zero, GameBlock 4],
              [GameBlock 5, Zero, GameBlock 2, GameBlock 3, GameBlock 6, Zero],
              [Zero, Zero, GameBlock 2, GameBlock 3, GameBlock 6, GameBlock 6]]\<rparr>"

text \<open>
  A game at level 2 with 1000 points on an empty board of 4 by 4 cells; the horizontal I
  lies on the floor, where it fills row 3.
\<close>

definition pieceLine :: GamePiece where
  "pieceLine = computeShape ((newGamePiece Shape_i)\<lparr>position := \<lparr>posX = 0, posY = 2\<rparr>\<rparr>)"

definition gameLine :: Game where
  "gameLine =
     game0\<lparr>difficulty := 2, score := Num 1000, gameBoard := newGameBoard 4 4,
           gamePiece := Some pieceLine, boardWidth := 4, boardHeight := 4\<rparr>"

text \<open>The O piece in the bottom right corner of the 10 by 20 board, three of its cells off it.\<close>

definition pieceCorner :: GamePiece where
  "pieceCorner = computeShape ((newGamePiece Shape_o)\<lparr>position := \<lparr>posX = 9, posY = 19\<rparr>\<rparr>)"

text \<open>
  A store that holds one piece, \<open>piece_t1\<close>, as object 0 with its shape array at 1 and its
  position object at 2, and an empty board of 10 by 20 cells.
\<close>

definition store0 :: store where
  "store0 =
     \<lparr>pieceObjects = [0 \<mapsto> \<lparr>shapeDescriptionOf = Some (shapes Shape_t), rotationOf = 1,
                              shapeArrayRef = 1, positionRef = 2\<rparr>],
      positionObjects = [2 \<mapsto> \<lparr>posX = 3, posY = 5\<rparr>],
      arrayObjects = [1 \<mapsto> shapeArray piece_t1],
      nextRef = 3, liveBoard = newGameBoard 10 20\<rparr>"

section \<open>Properties\<close>

subsection \<open>The tables\<close>

lemma shapeKeys_all: "set shapeKeys = UNIV"
proof -
  have "k \<in> set shapeKeys" for k by (cases k) (simp_all add: shapeKeys_def)
  then show ?thesis by auto
qed

text \<open>
  C9, as stated: the interval table has 10 entries, the reward table 4, the threshold table
  10, and there are 7 shapes with 4 masks each. This fails on the threshold table.
\<close>

theorem table_sizes_counterexample:
  "\<not> (length difficultyTimeouts = 10 \<and> length pointsAwardedForLines = 4 \<and>
      length scorePerLevel = 10 \<and> length shapeKeys = 7)"
  by (simp add: scorePerLevel_def)

text \<open>
  C9, amended: \<^verbatim>\<open>difficultyTimeouts\<close> has 10 entries, \<^verbatim>\<open>pointsAwardedForLines\<close> has 4,
  \<^verbatim>\<open>scorePerLevel\<close> has 9 (one threshold for each of the levels 0 to 8 that can still be
  left), and \<^verbatim>\<open>shapes\<close> has exactly the 7 keys i, j, l, o, s, t, z, each with 4 rotation
  masks.
\<close>

theorem table_sizes:
  "length difficultyTimeouts = 10 \<and> length pointsAwardedForLines = 4 \<and>
   length scorePerLevel = 9 \<and> length shapeKeys = 7 \<and> distinct shapeKeys \<and>
   set shapeKeys = UNIV \<and>
   map (\<lambda>k. length (blocks (shapes k))) shapeKeys = [4, 4, 4, 4, 4, 4, 4]"
  by (simp add: difficultyTimeouts_def pointsAwardedForLines_def scorePerLevel_def shapeKeys_all)
     (simp add: shapeKeys_def)

subsection \<open>Rotation\<close>

lemma upt4: "[0..<4] = [0, Suc 0, 2, 3]"
  by (simp add: upt_rec numeral_eq_Suc)

lemma fold_js_set_columns:
  assumes "length arr \<le> 4"
  shows "fold (\<lambda>i a. js_set hole a i (f i)) [0..<4] arr = map f [0..<4]"
proof -
  consider "arr = []" | a where "arr = [a]" | a b where "arr = [a, b]"
    | a b c where "arr = [a, b, c]" | a b c d where "arr = [a, b, c, d]"
    using assms
    by (cases arr; cases "tl arr"; cases "tl (tl arr)"; cases "tl (tl (tl arr))";
        cases "tl (tl (tl (tl arr)))") auto
  then show ?thesis
    by cases (simp_all add: upt4 js_set_def)
qed

lemma shapeArray_computeShape:
  "length (shapeArray p) \<le> 4 \<Longrightarrow>
   shapeArray (computeShape p) = map (computeColumn (shapeDescription p) (rotation p)) [0..<4]"
  by (simp add: computeShape_def pieceHeight_def fold_js_set_columns)

lemma rotatePiece4_rotation:
  "rotation p \<le> 3 \<Longrightarrow>
   rotation (rotatePiece (rotatePiece (rotatePiece (rotatePiece p)))) = rotation p"
  by (simp add: rotatePiece_def)

text \<open>
  C8: for a piece in one of the rotation states 0 to 3 (whose shape array is empty or holds
  the four computed columns), four calls of \<^verbatim>\<open>rotate\<close> followed by \<^verbatim>\<open>computeShape\<close>
  give the piece that \<^verbatim>\<open>computeShape\<close> gives before the rotations: the same shape array,
  rotation and position.
\<close>

theorem rotate_four_times:
  assumes "rotation p \<le> 3" and "length (shapeArray p) \<le> 4"
  shows "computeShape (rotatePiece (rotatePiece (rotatePiece (rotatePiece p)))) = computeShape p"
proof -
  let ?q = "rotatePiece (rotatePiece (rotatePiece (rotatePiece p)))"
  have r: "rotation ?q = rotation p" using assms(1) by (rule rotatePiece4_rotation)
  have d: "shapeDescription ?q = shapeDescription p" "position ?q = position p"
    "shapeArray ?q = []" "GamePiece.more ?q = GamePiece.more p"
    by (simp_all add: rotatePiece_def)
  have "shapeArray (computeShape ?q) = shapeArray (computeShape p)"
    using assms(2) by (simp add: shapeArray_computeShape d r)
  moreover have "shapeDescription (computeShape ?q) = shapeDescription (computeShape p)"
    "rotation (computeShape ?q) = rotation (computeShape p)"
    "position (computeShape ?q) = position (computeShape p)"
    by (simp_all add: computeShape_def d r)
  ultimately show ?thesis by (simp add: GamePiece.equality)
qed

theorem rotate_four_times_witness:
  "rotation piece_t1 \<le> 3 \<and> length (shapeArray piece_t1) \<le> 4 \<and>
   shapeArray (computeShape (rotatePiece (rotatePiece (rotatePiece (rotatePiece piece_t1))))) =
     [[Zero, GameBlock 5, Zero, Zero], [GameBlock 5, GameBlock 5, GameBlock 5, Zero],
      [Zero, Zero, Zero, Zero], [Zero, Zero, Zero, Zero]] \<and>
   shapeArray (rotatePiece piece_t1) = []"
proof -
  have h1: "rotation piece_t1 \<le> 3"
    by (simp add: piece_t1_def computeShape_def newGamePiece_def)
  have h2: "length (shapeArray piece_t1) \<le> 4" by code_simp
  have v: "shapeArray (computeShape piece_t1) =
     [[Zero, GameBlock 5, Zero, Zero], [GameBlock 5, GameBlock 5, GameBlock 5, Zero],
      [Zero, Zero, Zero, Zero], [Zero, Zero, Zero, Zero]]" by code_simp
  have e: "shapeArray (rotatePiece piece_t1) = []" by (simp add: rotatePiece_def)
  show ?thesis using rotate_four_times [OF h1 h2] h1 h2 v e by simp
qed

subsection \<open>Collision checks\<close>

lemma computed_cell:
  assumes "i < 4" "j < 4" "length (shapeArray q) \<le> 4"
  shows "shapeArray (computeShape q) ! i ! j =
     (if indexContainsBlock i j (currentShape (shapeDescription q) (rotation q))
      then GameBlock (color (shapeDescription q)) else Zero)"
  using assms by (simp add: shapeArray_computeShape computeColumn_def pieceWidth_def del: upt_Suc)

lemma simulate_shapeArray: "length (shapeArray (simulate d (clonePiece p))) \<le> 4"
  by (simp add: simulate_def clonePiece_def rotatePiece_def move_def)

lemma isValidMove_iff:
  "isValidMove b p d =
     (let q = simulate d (clonePiece p) in
      \<forall>i<4. \<forall>j<4. indexContainsBlock i j (currentShape (shapeDescription q) (rotation q)) \<longrightarrow>
         isOnBoard b (posX (position q) + int i) (posY (position q) + int j) \<and>
         \<not> isOccupied b (posX (position q) + int i) (posY (position q) + int j))"
proof -
  let ?q = "simulate d (clonePiece p)"
  have pos: "position (computeShape ?q) = position ?q" by (simp add: computeShape_def)
  have "isValidMove b p d = (\<forall>i<4. \<forall>j<4. \<not> blockCollides b (computeShape ?q) (i, j))"
    by (auto simp add: isValidMove_def Let_def list_all_iff pieceHeight_def pieceWidth_def)
  also have "\<dots> = (\<forall>i<4. \<forall>j<4. indexContainsBlock i j (currentShape (shapeDescription ?q) (rotation ?q)) \<longrightarrow>
         isOnBoard b (posX (position ?q) + int i) (posY (position ?q) + int j) \<and>
         \<not> isOccupied b (posX (position ?q) + int i) (posY (position ?q) + int j))"
    by (auto simp add: blockCollides_def computed_cell simulate_shapeArray pos)
  finally show ?thesis by (simp add: Let_def)
qed

lemma simulate_left:
  "simulate ''left'' (clonePiece p) =
     \<lparr>shapeDescription = shapeDescription p, rotation = rotation p, shapeArray = [],
      position = \<lparr>posX = posX (position p) - 1, posY = posY (position p)\<rparr>\<rparr>"
  by (simp add: simulate_def move_def clonePiece_def)

lemma simulate_right:
  "simulate ''right'' (clonePiece p) =
     \<lparr>shapeDescription = shapeDescription p, rotation = rotation p, shapeArray = [],
      position = \<lparr>posX = posX (position p) + 1, posY = posY (position p)\<rparr>\<rparr>"
  by (simp add: simulate_def move_def clonePiece_def)

text \<open>
  C7, amended: collisions are decided by the occupied cells of the mask, not by the
  bounding box. On a board whose grid has \<^verbatim>\<open>width\<close> columns, a piece with an occupied
  cell in board column 0 is refused the move left, and a piece with an occupied cell in
  board column \<open>width - 1\<close> is refused the move right.
\<close>

theorem wall_collision:
  assumes "length (grid b) = width b" and "i < 4" and "j < 4"
    and "indexContainsBlock i j (currentShape (shapeDescription p) (rotation p))"
  shows "(posX (position p) + int i = 0 \<longrightarrow> \<not> isValidMove b p ''left'') \<and>
         (posX (position p) + int i = int (width b) - 1 \<longrightarrow> \<not> isValidMove b p ''right'')"
proof (intro conjI impI)
  assume x: "posX (position p) + int i = 0"
  have "\<not> isOnBoard b (posX (position p) - 1 + int i) (posY (position p) + int j)"
    using x by (simp add: isOnBoard_def)
  then show "\<not> isValidMove b p ''left''"
    using assms(2-4) by (auto simp add: isValidMove_iff simulate_left Let_def)
next
  assume x: "posX (position p) + int i = int (width b) - 1"
  have "\<not> isOnBoard b (posX (position p) + 1 + int i) (posY (position p) + int j)"
    using x assms(1) by (simp add: isOnBoard_def)
  then show "\<not> isValidMove b p ''right''"
    using assms(2-4) by (auto simp add: isValidMove_iff simulate_right Let_def)
qed

text \<open>
  C7, as stated, fails for a piece whose mask leaves the outer columns of its box empty:
  the vertical I at \<open>x = 0\<close> may move left, and at \<open>x = width - size\<close> it may move right.
\<close>

theorem wall_collision_counterexample:
  "posX (position piece_i1) = 0 \<and> isValidMove (newGameBoard 10 20) piece_i1 ''left'' \<and>
   posX (position (piece_i1\<lparr>position := \<lparr>posX = 6, posY = 0\<rparr>\<rparr>)) =
      int (width (newGameBoard 10 20)) - int (shapeSize (shapeDescription piece_i1)) \<and>
   isValidMove (newGameBoard 10 20) (piece_i1\<lparr>position := \<lparr>posX = 6, posY = 0\<rparr>\<rparr>) ''right''"
  by code_simp

theorem wall_collision_witness:
  "length (grid (newGameBoard 10 20)) = width (newGameBoard 10 20) \<and>
   indexContainsBlock 2 0 (currentShape (shapeDescription piece_i1) (rotation piece_i1)) \<and>
   \<not> isValidMove (newGameBoard 10 20) (piece_i1\<lparr>position := \<lparr>posX = - 2, posY = 0\<rparr>\<rparr>) ''left'' \<and>
   \<not> isValidMove (newGameBoard 10 20) (piece_i1\<lparr>position := \<lparr>posX = 7, posY = 0\<rparr>\<rparr>) ''right''"
proof -
  have h1: "length (grid (newGameBoard 10 20)) = width (newGameBoard 10 20)"
    by (simp add: newGameBoard_def)
  have h2: "indexContainsBlock 2 0 (currentShape (shapeDescription piece_i1) (rotation piece_i1))"
    by code_simp
  have h2l: "indexContainsBlock 2 0 (currentShape (shapeDescription (piece_i1\<lparr>position := \<lparr>posX = - 2, posY = 0\<rparr>\<rparr>)) (rotation (piece_i1\<lparr>position := \<lparr>posX = - 2, posY = 0\<rparr>\<rparr>)))"
    using h2 by simp
  have h2r: "indexContainsBlock 2 0 (currentShape (shapeDescription (piece_i1\<lparr>position := \<lparr>posX = 7, posY = 0\<rparr>\<rparr>)) (rotation (piece_i1\<lparr>position := \<lparr>posX = 7, posY = 0\<rparr>\<rparr>)))"
    using h2 by simp
  have w: "width (newGameBoard 10 20) = 10" by (simp add: newGameBoard_def)
  show ?thesis
    using wall_collision [OF h1 _ _ h2l] wall_collision [OF h1 _ _ h2r] h1 h2 w
    by simp
qed

subsection \<open>Score and level\<close>

text \<open>
  C5: when the score after \<^verbatim>\<open>addScore\<close> exceeds \<^verbatim>\<open>scorePerLevel[d]\<close> at a level
  \<open>d\<close> below 9, the level becomes \<open>d + 1\<close>, the old ticker is cleared and the ticker is a
  new interval of \<^verbatim>\<open>difficultyTimeouts[d + 1]\<close> ms. In every case the level does not
  decrease, rises by at most 1, and stays at most 9.
\<close>

theorem addScore_level_up:
  assumes "score g = Num s"
  shows "(difficulty g < 9 \<and> s + v > scorePerLevel ! difficulty g \<longrightarrow>
            difficulty (addScore (Num v) g) = difficulty g + 1 \<and>
            ticker (addScore (Num v) g) = Some (nextIntervalId g) \<and>
            intervals (addScore (Num v) g) =
              (intervals (clearInterval (ticker g) g))
                (nextIntervalId g \<mapsto> difficultyTimeouts ! (difficulty g + 1))) \<and>
         difficulty g \<le> difficulty (addScore (Num v) g) \<and>
         difficulty (addScore (Num v) g) \<le> difficulty g + 1 \<and>
         (difficulty g \<le> 9 \<longrightarrow> difficulty (addScore (Num v) g) \<le> 9)"
  using assms
  by (auto simp add: addScore_def Let_def resetTimer_def armTicker_def clearInterval_def
      tableAt_def scorePerLevel_def difficultyTimeouts_def split: option.splits)

theorem addScore_level_up_witness:
  "score (game0\<lparr>score := Num 1160\<rparr>) = Num 1160 \<and>
   difficulty (game0\<lparr>score := Num 1160\<rparr>) < 9 \<and>
   1160 + 100 > scorePerLevel ! difficulty (game0\<lparr>score := Num 1160\<rparr>) \<and>
   difficulty (addScore (Num 100) (game0\<lparr>score := Num 1160\<rparr>)) = 1 \<and>
   ticker (addScore (Num 100) (game0\<lparr>score := Num 1160\<rparr>)) = Some 2 \<and>
   intervals (addScore (Num 100) (game0\<lparr>score := Num 1160\<rparr>)) 1 = None \<and>
   intervals (addScore (Num 100) (game0\<lparr>score := Num 1160\<rparr>)) 2 = Some 750"
proof -
  have h: "score (game0\<lparr>score := Num 1160\<rparr>) = Num 1160" by simp
  have d: "difficulty (game0\<lparr>score := Num 1160\<rparr>) = 0"
    "ticker (game0\<lparr>score := Num 1160\<rparr>) = Some 1"
    "nextIntervalId (game0\<lparr>score := Num 1160\<rparr>) = 2"
    by (simp_all add: game0_def)
  have t: "scorePerLevel ! 0 = 1200" "difficultyTimeouts ! Suc 0 = 750"
    by (simp_all add: scorePerLevel_def difficultyTimeouts_def)
  show ?thesis
    using addScore_level_up [OF h, of 100] by (simp add: d t clearInterval_def)
qed

subsection \<open>Spawning\<close>

lemma togglePause_not_paused:
  "\<not> isPaused g \<Longrightarrow>
   togglePause g = (clearInterval (ticker g) g)\<lparr>ticker := None, isPaused := True\<rparr>"
  by (subst togglePause.simps) simp

text \<open>
  C2, as stated, fails: after a failed spawn the game is over, but it still holds the piece
  that failed as its \<^verbatim>\<open>gamePiece\<close>.
\<close>

theorem failed_spawn_counterexample:
  "nextPiece gameBlocked = newGamePiece Shape_i \<and>
   \<not> isValidMove (gameBoard gameBlocked)
       ((nextPiece gameBlocked)\<lparr>position :=
           spawnPosition (gameBoard gameBlocked) (nextPiece gameBlocked)\<rparr>) ''down'' \<and>
   isGameOver (selectNextPiece gameBlocked) \<and>
   gamePiece (selectNextPiece gameBlocked) =
     Some ((newGamePiece Shape_i)\<lparr>position := \<lparr>posX = 3, posY = 0\<rparr>\<rparr>)"
  by code_simp

text \<open>
  C2, amended: when the piece spawned by \<^verbatim>\<open>selectNextPiece\<close> fails
  \<^verbatim>\<open>isValidMove(piece, "down")\<close> in a game that is not paused, the game is over and
  paused, its ticker is cleared, and the piece that failed stays the game's
  \<^verbatim>\<open>gamePiece\<close>, at its spawn position; board and score are unchanged.
\<close>

theorem failed_spawn:
  assumes "\<not> isValidMove (gameBoard g)
               ((nextPiece g)\<lparr>position := spawnPosition (gameBoard g) (nextPiece g)\<rparr>) ''down''"
    and "\<not> isPaused g"
  shows "isGameOver (selectNextPiece g) \<and> isPaused (selectNextPiece g) \<and>
         ticker (selectNextPiece g) = None \<and>
         intervals (selectNextPiece g) = intervals (clearInterval (ticker g) g) \<and>
         gamePiece (selectNextPiece g) =
           Some ((nextPiece g)\<lparr>position := spawnPosition (gameBoard g) (nextPiece g)\<rparr>) \<and>
         gameBoard (selectNextPiece g) = gameBoard g \<and> score (selectNextPiece g) = score g"
  using assms
  by (subst (1 2 3 4 5 6 7) selectNextPiece.simps)
     (simp add: Let_def getRandomPiece_def togglePause_not_paused clearInterval_def
        split: option.splits)

theorem failed_spawn_witness:
  "\<not> isValidMove (gameBoard (game0\<lparr>gameBoard := newGameBoard 10 1\<rparr>))
       ((nextPiece (game0\<lparr>gameBoard := newGameBoard 10 1\<rparr>))
          \<lparr>position := spawnPosition (gameBoard (game0\<lparr>gameBoard := newGameBoard 10 1\<rparr>))
                         (nextPiece (game0\<lparr>gameBoard := newGameBoard 10 1\<rparr>))\<rparr>) ''down'' \<and>
   \<not> isPaused (game0\<lparr>gameBoard := newGameBoard 10 1\<rparr>) \<and>
   isGameOver (selectNextPiece (game0\<lparr>gameBoard := newGameBoard 10 1\<rparr>)) \<and>
   isPaused (selectNextPiece (game0\<lparr>gameBoard := newGameBoard 10 1\<rparr>)) \<and>
   ticker (selectNextPiece (game0\<lparr>gameBoard := newGameBoard 10 1\<rparr>)) = None \<and>
   intervals (selectNextPiece (game0\<lparr>gameBoard := newGameBoard 10 1\<rparr>)) 1 = None \<and>
   gamePiece (selectNextPiece (game0\<lparr>gameBoard := newGameBoard 10 1\<rparr>)) =
     Some ((newGamePiece Shape_i)\<lparr>position := \<lparr>posX = 3, posY = 0\<rparr>\<rparr>)"
proof -
  let ?g = "game0\<lparr>gameBoard := newGameBoard 10 1\<rparr>"
  have h1: "\<not> isValidMove (gameBoard ?g)
       ((nextPiece ?g)\<lparr>position := spawnPosition (gameBoard ?g) (nextPiece ?g)\<rparr>) ''down''"
    by code_simp
  have h2: "\<not> isPaused ?g" by (simp add: game0_def)
  have sp: "(nextPiece ?g)\<lparr>position := spawnPosition (gameBoard ?g) (nextPiece ?g)\<rparr>
      = (newGamePiece Shape_i)\<lparr>position := \<lparr>posX = 3, posY = 0\<rparr>\<rparr>"
    by code_simp
  have t: "intervals (clearInterval (ticker ?g) ?g) 1 = None"
    by (simp add: clearInterval_def game0_def)
  show ?thesis
    using failed_spawn [OF h1 h2] h1 h2 t unfolding sp by simp
qed

subsection \<open>Line clears\<close>

lemma forEach_append:
  "forEach body (xs @ ys) s = (case forEach body xs s of None \<Rightarrow> None | Some s' \<Rightarrow> forEach body ys s')"
  by (induction xs arbitrary: s) (auto split: option.splits)

lemma forEach_cong_inv:
  assumes "I s" and "\<And>a t. a \<in> set xs \<Longrightarrow> I t \<Longrightarrow> body a t = Some (f a t) \<and> I (f a t)"
  shows "forEach body xs s = Some (fold f xs s) \<and> I (fold f xs s)"
  using assms by (induction xs arbitrary: s) auto

lemma shiftCell_colStep:
  "shiftCell j k g = (if k < length g then Some (g[k := colStep j (g ! k)]) else None)"
  by (simp add: shiftCell_def colStep_def)

lemma shiftCell_inner:
  assumes "n \<le> length g"
  shows "forEach (\<lambda>k. shiftCell j k) [0..<n] g = Some (map (colStep j) (take n g) @ drop n g)"
  using assms
proof (induction n)
  case 0
  then show ?case by simp
next
  case (Suc n)
  then have n: "n < length g" by simp
  have "(map (colStep j) (take n g) @ drop n g)[n := colStep j (g ! n)]
        = map (colStep j) (take (Suc n) g) @ drop (Suc n) g"
    using n by (simp add: list_update_append take_Suc_conv_app_nth upd_conv_take_nth_drop
        Cons_nth_drop_Suc [symmetric])
  moreover have "(map (colStep j) (take n g) @ drop n g) ! n = g ! n"
    using n by (simp add: nth_append)
  ultimately show ?case
    using Suc n by (simp add: forEach_append shiftCell_colStep)
qed

lemma shiftRow_all:
  "w = length g \<Longrightarrow> forEach (\<lambda>k. shiftCell j k) [0..<w] g = Some (map (colStep j) g)"
  using shiftCell_inner [of "length g" g j] by simp

lemma fold_map_columns:
  "fold (\<lambda>j g. map (f j) g) js g = map (fold f js) g"
  by (induction js arbitrary: g) auto

lemma collapseRow_columns:
  assumes "w = length g"
  shows "collapseRow w rowNum g = Some (map (fold colStep (rev [0..rowNum])) g)"
proof -
  have "forEach (\<lambda>j. forEach (\<lambda>k. shiftCell j k) [0..<w]) js g
          = Some (fold (\<lambda>j g. map (colStep j) g) js g)
        \<and> length (fold (\<lambda>j g. map (colStep j) g) js g) = w" for js
    using assms
    by (intro forEach_cong_inv [where I = "\<lambda>t. length t = w"]) (auto simp: shiftRow_all)
  then show ?thesis by (simp add: collapseRow_def fold_map_columns)
qed


lemma colStep_Suc:
  "Suc r < length col \<Longrightarrow> colStep (int (Suc r)) col = col[Suc r := col ! r]"
proof -
  assume a: "Suc r < length col"
  have n: "nat (int (Suc r)) = Suc r" "nat (int (Suc r) - 1) = r" "int (Suc r) > 0"
    "0 \<le> int (Suc r) - 1"
    by simp_all
  show ?thesis
    using a unfolding colStep_def js_set_def cellAt_def n by simp
qed

lemma colStep_zero: "col \<noteq> [] \<Longrightarrow> colStep 0 col = Zero # tl col"
  by (cases col) (simp_all add: colStep_def js_set_def)

lemma sweep_column:
  assumes "r < length col"
  shows "fold colStep (rev [0..int r]) col = Zero # take r col @ drop (Suc r) col"
  using assms
proof (induction r arbitrary: col)
  case 0
  then show ?case by (cases col) (simp_all add: colStep_zero)
next
  case (Suc r)
  let ?col' = "col[Suc r := col ! r]"
  have up: "[0..int (Suc r)] = [0..int r] @ [int (Suc r)]"
    using upto_rec2 [of 0 "int (Suc r)"] by simp
  have up': "rev [0..int (Suc r)] = int (Suc r) # rev [0..int r]"
    by (simp only: up rev_append rev.simps append.simps)
  have step: "colStep (int (Suc r)) col = ?col'"
    using Suc.prems by (rule colStep_Suc)
  have "fold colStep (rev [0..int (Suc r)]) col = fold colStep (rev [0..int r]) ?col'"
    by (simp only: up' fold_Cons comp_apply step)
  also have "\<dots> = Zero # take r ?col' @ drop (Suc r) ?col'"
    using Suc.prems by (intro Suc.IH) simp
  also have "take r ?col' = take r col" by simp
  also have "drop (Suc r) ?col' = col ! r # drop (Suc (Suc r)) col"
    using Suc.prems by (simp add: upd_conv_take_nth_drop)
  also have "take r col @ col ! r # drop (Suc (Suc r)) col = take (Suc r) col @ drop (Suc (Suc r)) col"
    using Suc.prems by (simp add: take_Suc_conv_app_nth)
  finally show ?case .
qed


lemma deleteRows_nths: "deleteRows ls col = nths col {j. int j \<notin> set ls}"
  by (simp add: deleteRows_def nths_def)

lemma nths_cong_below:
  assumes "\<And>i. i < length xs \<Longrightarrow> (i \<in> A) = (i \<in> B)"
  shows "nths xs A = nths xs B"
proof -
  have "filter (\<lambda>p. snd p \<in> A) (zip xs [0..<length xs])
        = filter (\<lambda>p. snd p \<in> B) (zip xs [0..<length xs])"
    by (rule filter_cong) (auto simp: set_zip assms)
  then show ?thesis by (simp add: nths_def)
qed

lemma inj_nat_rows:
  assumes "\<forall>x\<in>set rs. 0 \<le> x \<and> x < int n"
  shows "inj_on nat (set rs)"
proof (rule inj_onI)
  fix x y assume "x \<in> set rs" "y \<in> set rs" "nat x = nat y"
  then show "x = y" using assms by (metis eq_nat_nat_iff)
qed

lemma card_kept_rows:
  assumes "distinct rs" and "\<forall>x\<in>set rs. 0 \<le> x \<and> x < int n"
  shows "card {i. i < n \<and> int i \<notin> set rs} = n - length rs"
proof -
  have eq: "{i. i < n \<and> int i \<notin> set rs} = {..<n} - nat ` set rs"
    using assms(2) by (auto simp: image_iff) (metis nat_int)
  have sub: "nat ` set rs \<subseteq> {..<n}" using assms(2) by auto
  have inj: "inj_on nat (set rs)"
    using assms(2) by (rule inj_nat_rows)
  have "card (nat ` set rs) = length rs"
    using assms(1) by (simp add: card_image inj distinct_card)
  then show ?thesis
    using sub by (simp add: eq card_Diff_subset)
qed

lemma length_deleteRows:
  assumes "distinct rs" and "\<forall>x\<in>set rs. 0 \<le> x \<and> x < int (length col)"
  shows "length (deleteRows rs col) = length col - length rs"
  using card_kept_rows [OF assms] by (simp add: deleteRows_nths length_nths)

lemma length_rows_le:
  assumes "distinct rs" and "\<forall>x\<in>set rs. 0 \<le> x \<and> x < int n"
  shows "length rs \<le> n"
proof -
  have "nat ` set rs \<subseteq> {..<n}" using assms(2) by auto
  then have "card (nat ` set rs) \<le> n"
    by (metis card_lessThan card_mono finite_lessThan)
  moreover have "inj_on nat (set rs)" using assms(2) by (rule inj_nat_rows)
  ultimately show ?thesis using assms(1) by (simp add: card_image distinct_card)
qed

lemma sweeps_column:
  assumes "sorted rs" and "distinct rs" and "\<forall>x\<in>set rs. 0 \<le> x \<and> x < int (length col)"
  shows "fold (\<lambda>r. fold colStep (rev [0..r])) rs col
           = replicate (length rs) Zero @ deleteRows rs col"
  using assms
proof (induction rs rule: rev_induct)
  case Nil
  have "nths col {j. True} = col" by (simp add: nths_all)
  then show ?case by (simp add: deleteRows_nths)
next
  case (snoc r rs)
  define n where "n = nat r"
  define k where "k = length rs"
  define A where "A = {j. int j \<notin> set rs}"
  define A' where "A' = {j. int j \<notin> set (rs @ [r])}"
  define P where "P = nths (take n col) A"
  have r: "r = int n" "n < length col" using snoc.prems(3) by (auto simp: n_def)
  have below: "\<forall>x\<in>set rs. 0 \<le> x \<and> x < int n"
    using snoc.prems by (auto simp: sorted_append r(1)) (metis order_le_less)
  have srt: "sorted rs" "distinct rs" using snoc.prems by (auto simp: sorted_append)
  have inrange: "\<forall>x\<in>set rs. 0 \<le> x \<and> x < int (length col)"
    using snoc.prems(3) by simp
  have IH: "fold (\<lambda>r. fold colStep (rev [0..r])) rs col = replicate k Zero @ deleteRows rs col"
    using snoc.IH [OF srt inrange] by (simp add: k_def)
  have lenP: "length P = n - k"
    using card_kept_rows [OF srt(2) below] r(2)
    by (simp add: P_def A_def length_nths k_def min_def) 
  have kn: "k \<le> n" using length_rows_le [OF srt(2) below] by (simp add: k_def)
  have split: "col = take n col @ drop n col" by simp
  have "nths col A = nths (take n col) A @ nths (drop n col) {j. j + length (take n col) \<in> A}"
    by (subst split) (rule nths_append)
  moreover have "nths (drop n col) {j. j + length (take n col) \<in> A} = drop n col"
    using below r(2) by (intro nths_all) (auto simp: A_def min_def)
  ultimately have del: "deleteRows rs col = P @ drop n col"
    by (simp add: deleteRows_nths A_def P_def)
  let ?c1 = "replicate k Zero @ deleteRows rs col"
  have c1: "?c1 = (replicate k Zero @ P) @ drop n col" by (simp add: del)
  have len1: "length (replicate k Zero @ P) = n" using lenP kn by simp
  have lenc1: "n < length ?c1" using len1 r(2) by (simp add: del)
  have tk: "take n ?c1 = replicate k Zero @ P"
    unfolding c1 using len1 by simp
  have dr: "drop (Suc n) ?c1 = drop (Suc n) col"
    unfolding c1 using len1 by (simp add: drop_Suc [symmetric] ) 
  have "fold (\<lambda>r. fold colStep (rev [0..r])) (rs @ [r]) col = fold colStep (rev [0..int n]) ?c1"
    by (simp add: IH r(1))
  also have "\<dots> = Zero # take n ?c1 @ drop (Suc n) ?c1"
    using lenc1 by (rule sweep_column)
  also have "\<dots> = replicate (Suc k) Zero @ P @ drop (Suc n) col"
    by (simp only: tk dr) simp
  finally have lhs: "fold (\<lambda>r. fold colStep (rev [0..r])) (rs @ [r]) col
      = replicate (Suc k) Zero @ P @ drop (Suc n) col" .
  have split3: "col = take n col @ [col ! n] @ drop (Suc n) col"
    using r(2) by (simp add: Cons_nth_drop_Suc)
  have n1: "nths (take n col) A' = P"
    unfolding P_def by (rule nths_cong_below) (auto simp: A'_def A_def r(1))
  have n2: "nths [col ! n] {j. j + length (take n col) \<in> A'} = []"
    using r(2) by (simp add: A'_def r(1) min_def)
  have n3: "nths (drop (Suc n) col) {j. j + length [col ! n] \<in> {j. j + length (take n col) \<in> A'}} = drop (Suc n) col"
    using below r(2) by (intro nths_all) (auto simp: A'_def r(1) min_def)
  have "nths col A' = nths (take n col @ [col ! n] @ drop (Suc n) col) A'"
    using split3 by simp
  also have "\<dots> = P @ drop (Suc n) col"
    by (simp only: nths_append n1 n2 n3) simp
  finally have "deleteRows (rs @ [r]) col = P @ drop (Suc n) col"
    by (simp add: deleteRows_nths A'_def)
  then show ?case using lhs by (simp add: k_def)
qed


lemma gameBoard_addScore: "gameBoard (addScore v g) = gameBoard g"
  by (simp add: addScore_def Let_def resetTimer_def armTicker_def clearInterval_def
      split: option.splits)

lemma deleteRows_set: "set ls = set ls' \<Longrightarrow> deleteRows ls col = deleteRows ls' col"
  by (simp add: deleteRows_def)

lemma collapse_all:
  assumes "w = length g"
  shows "forEach (collapseRow w) rs g
           = Some (map (fold (\<lambda>r. fold colStep (rev [0..r])) rs) g)"
proof -
  have "forEach (collapseRow w) rs g
          = Some (fold (\<lambda>r g. map (fold colStep (rev [0..r])) g) rs g)
        \<and> length (fold (\<lambda>r g. map (fold colStep (rev [0..r])) g) rs g) = w"
    using assms
    by (intro forEach_cong_inv [where I = "\<lambda>t. length t = w"]) (auto simp: collapseRow_columns)
  then show ?thesis by (simp add: fold_map_columns)
qed

lemma reference_column:
  assumes "distinct ls" and "\<forall>x\<in>set ls. 0 \<le> x \<and> x < int (length col)"
  shows "fold (\<lambda>r. fold colStep (rev [0..r])) (sort ls) col
           = replicate (length col - length (deleteRows ls col)) Zero @ deleteRows ls col"
proof -
  have "fold (\<lambda>r. fold colStep (rev [0..r])) (sort ls) col
          = replicate (length (sort ls)) Zero @ deleteRows (sort ls) col"
    using assms by (intro sweeps_column) auto
  moreover have "deleteRows (sort ls) col = deleteRows ls col"
    by (rule deleteRows_set) simp
  moreover have "length col - length (deleteRows ls col) = length ls"
    using length_deleteRows [OF assms] length_rows_le [OF assms] by simp
  ultimately show ?thesis by simp
qed

lemma rows_2_3_column:
  assumes "4 \<le> length col"
  shows "fold colStep (rev [0..3]) (fold colStep (rev [0..2]) col)
           = Zero # Zero # take 2 col @ drop 4 col"
proof -
  let ?c = "Zero # take 2 col @ drop 3 col"
  have a: "fold colStep (rev [0..int 2]) col = ?c"
    using assms by (subst sweep_column) (simp_all add: numeral_3_eq_3)
  have b: "fold colStep (rev [0..int 3]) ?c = Zero # take 3 ?c @ drop (Suc 3) ?c"
    using assms by (subst sweep_column) simp_all
  have l: "length (Zero # take 2 col) = 3" using assms by simp
  have c: "take 3 ?c = Zero # take 2 col"
    using l by (metis append_Cons append_eq_conv_conj)
  have "drop 3 ?c = drop 3 col"
    using l by (metis append_Cons append_eq_conv_conj)
  then have d: "drop (Suc 3) ?c = drop 4 col"
    by (metis drop_Suc tl_drop eval_nat_numeral(2) semiring_norm(26,27))
  have i2: "int 2 = 2" and i3: "int 3 = 3" by simp_all
  have "fold colStep (rev [0..3]) (fold colStep (rev [0..2]) col) = fold colStep (rev [0..int 3]) ?c"
    using a by (simp only: i2 i3)
  also have "\<dots> = Zero # take 3 ?c @ drop (Suc 3) ?c" by (rule b)
  also have "\<dots> = Zero # (Zero # take 2 col) @ drop 4 col" by (simp only: c d)
  finally show ?thesis by simp
qed

text \<open>
  C3: on a well-formed board (\<^verbatim>\<open>width\<close> columns of \<^verbatim>\<open>height\<close> cells), for every list of
  distinct row indices of the board, \<^verbatim>\<open>clearLines\<close> returns, and its grid is the one of the
  reference formulation: the completed rows deleted and as many empty rows put on top. For
  the rows 2 and 3 this makes rows 0 and 1 empty, moves the former rows 0 and 1 down by 2
  and leaves the rows below row 3 as they are.
\<close>

theorem clearLines_refines_reference:
  assumes ok: "boardOK (gameBoard g)"
    and "distinct completedLines"
    and "\<forall>r\<in>set completedLines. 0 \<le> r \<and> r < int (height (gameBoard g))"
  shows "\<exists>g'. clearLines completedLines g = Some g' \<and>
           grid (gameBoard g') = clearLines_reference completedLines (grid (gameBoard g)) \<and>
           (set completedLines = {2, 3} \<longrightarrow>
              grid (gameBoard g') =
                map (\<lambda>col. Zero # Zero # take 2 col @ drop 4 col) (grid (gameBoard g)))"
proof -
  have w: "length (grid (gameBoard g)) = width (gameBoard g)"
    and rect: "\<forall>col\<in>set (grid (gameBoard g)). length col = height (gameBoard g)"
    using ok by (simp_all add: boardOK_def list_all_iff)
  let ?sweep = "\<lambda>rs. fold (\<lambda>r. fold colStep (rev [0..r])) rs"
  have cols: "?sweep (sort completedLines) col
        = replicate (length col - length (deleteRows completedLines col)) Zero
          @ deleteRows completedLines col"
    if "col \<in> set (grid (gameBoard g))" for col
    using that rect assms(3) by (intro reference_column [OF assms(2)]) auto
  have ref: "map (?sweep (sort completedLines)) (grid (gameBoard g))
        = clearLines_reference completedLines (grid (gameBoard g))"
    by (simp add: clearLines_reference_def cols)
  have special: "map (?sweep (sort completedLines)) (grid (gameBoard g))
        = map (\<lambda>col. Zero # Zero # take 2 col @ drop 4 col) (grid (gameBoard g))"
    if s: "set completedLines = {2, 3}"
  proof -
    have "sort completedLines = [2, 3]"
      using s assms(2) by (intro sorted_distinct_set_unique) auto
    moreover have "4 \<le> length col" if "col \<in> set (grid (gameBoard g))" for col
      using that rect assms(3) s by auto
    ultimately show ?thesis by (simp add: rows_2_3_column)
  qed
  show ?thesis
  proof (cases "completedLines = []")
    case True
    have "deleteRows [] col = col" for col
      by (simp add: deleteRows_nths nths_all)
    then show ?thesis using True
      by (simp add: clearLines_def clearLines_reference_def)
  next
    case False
    then show ?thesis
      using w ref special
      by (simp add: clearLines_def Let_def gameBoard_addScore collapse_all)
  qed
qed

theorem clearLines_refines_reference_witness:
  "boardOK (gameBoard (game0\<lparr>gameBoard := linesBoard\<rparr>)) \<and> distinct [3, 2 :: int] \<and>
   list_all (\<lambda>r. 0 \<le> r \<and> r < int (height linesBoard)) [3, 2] \<and>
   set [3, 2 :: int] = {2, 3} \<and>
   (\<exists>g'. clearLines [3, 2] (game0\<lparr>gameBoard := linesBoard\<rparr>) = Some g' \<and>
      grid (gameBoard g') =
        [[Zero, Zero, Zero, GameBlock 1, Zero, GameBlock 4],
         [Zero, Zero, GameBlock 5, Zero, GameBlock 6, Zero],
         [Zero, Zero, Zero, Zero, GameBlock 6, GameBlock 6]])"
proof -
  let ?g = "game0\<lparr>gameBoard := linesBoard\<rparr>"
  have h1: "boardOK (gameBoard ?g)"
    by (simp add: linesBoard_def boardOK_def)
  have h3: "distinct [3, 2 :: int]" by simp
  have h4: "\<forall>r\<in>set [3, 2]. 0 \<le> r \<and> r < int (height (gameBoard ?g))"
    by (simp add: linesBoard_def)
  have h5: "set [3, 2 :: int] = {2, 3}" by auto
  have v: "clearLines_reference [3, 2] (grid linesBoard) =
        [[Zero, Zero, Zero, GameBlock 1, Zero, GameBlock 4],
         [Zero, Zero, GameBlock 5, Zero, GameBlock 6, Zero],
         [Zero, Zero, Zero, Zero, GameBlock 6, GameBlock 6]]"
    by code_simp
  show ?thesis
    using clearLines_refines_reference [OF h1 h3 h4] h1 h3 h4 h5 v by auto
qed

subsection \<open>Baking a piece\<close>

lemma isOnBoard_boardOK:
  "boardOK b \<Longrightarrow> isOnBoard b x y = (0 \<le> x \<and> x < int (width b) \<and> 0 \<le> y \<and> y < int (height b))"
  by (cases "grid b") (auto simp: isOnBoard_def boardOK_def)

lemma boardOK_column: "boardOK b \<Longrightarrow> x < width b \<Longrightarrow> length (grid b ! x) = height b"
  by (simp add: boardOK_def list_all_length)


lemma bakeCell_step:
  assumes ok: "boardOK b" and i: "i < length (shapeArray raw)"
  shows "\<exists>b'. bakeCell raw (i, j) b = Some b' \<and> boardOK b' \<and> width b' = width b \<and>
           height b' = height b \<and>
           (\<forall>x<width b. \<forall>y<height b. grid b' ! x ! y =
              (if int x = posX (position raw) + int i \<and> int y = posY (position raw) + int j \<and>
                  isGameBlock (pieceCell raw i j)
               then pieceCell raw i j else grid b ! x ! y))"
proof (cases "isOnBoard b (posX (position raw) + int i) (posY (position raw) + int j) \<and>
              isGameBlock (pieceCell raw i j)")
  case False
  then have "bakeCell raw (i, j) b = Some b"
    using i by (auto simp: bakeCell_def Let_def)
  moreover have "\<not> (int x = posX (position raw) + int i \<and> int y = posY (position raw) + int j \<and>
                   isGameBlock (pieceCell raw i j))" if "x < width b" "y < height b" for x y
    using False that by (auto simp: isOnBoard_boardOK [OF ok])
  ultimately show ?thesis using ok by auto
next
  case True
  define bx where "bx = nat (posX (position raw) + int i)"
  define by' where "by' = nat (posY (position raw) + int j)"
  have on: "int bx = posX (position raw) + int i" "int by' = posY (position raw) + int j"
    "bx < width b" "by' < height b"
    using True by (auto simp: isOnBoard_boardOK [OF ok] bx_def by'_def)
  let ?b' = "b\<lparr>grid := (grid b)[bx := (grid b ! bx)[by' := pieceCell raw i j]]\<rparr>"
  have col: "length (grid b ! bx) = height b" using ok on(3) by (rule boardOK_column)
  have "bakeCell raw (i, j) b = Some ?b'"
    using True i on(4) col by (simp add: bakeCell_def Let_def js_set_def bx_def by'_def)
  moreover have "boardOK ?b'"
    using ok col on(3) by (auto simp: boardOK_def list_all_length nth_list_update)
  moreover have "grid ?b' ! x ! y =
              (if int x = posX (position raw) + int i \<and> int y = posY (position raw) + int j \<and>
                  isGameBlock (pieceCell raw i j)
               then pieceCell raw i j else grid b ! x ! y)" if "x < width b" "y < height b" for x y
  proof -
    have w: "length (grid b) = width b" using ok by (simp add: boardOK_def)
    have e: "(int x = posX (position raw) + int i \<and> int y = posY (position raw) + int j)
               = (x = bx \<and> y = by')"
      using on(1,2) by auto
    have g: "grid ?b' ! x ! y = (if x = bx \<and> y = by' then pieceCell raw i j else grid b ! x ! y)"
    proof (cases "x = bx")
      case True
      then show ?thesis using that w col on(3) by (simp add: nth_list_update)
    next
      case False
      then show ?thesis using that w by simp
    qed
    show ?thesis using True e g by auto
  qed
  ultimately show ?thesis by auto
qed


lemma bake_loop:
  assumes "boardOK b" and "\<forall>ij\<in>set ijs. fst ij < length (shapeArray raw)"
  shows "\<exists>b'. forEach (bakeCell raw) ijs b = Some b' \<and> boardOK b' \<and> width b' = width b \<and>
           height b' = height b \<and>
           (\<forall>x<width b. \<forall>y<height b. grid b' ! x ! y =
              (if \<exists>ij\<in>set ijs. int x = posX (position raw) + int (fst ij) \<and>
                    int y = posY (position raw) + int (snd ij) \<and>
                    isGameBlock (pieceCell raw (fst ij) (snd ij))
               then pieceCell raw (nat (int x - posX (position raw)))
                      (nat (int y - posY (position raw)))
               else grid b ! x ! y))"
  using assms
proof (induction ijs arbitrary: b)
  case Nil
  then show ?case by simp
next
  case (Cons ij ijs)
  obtain i j where ij: "ij = (i, j)" by (cases ij)
  have i: "i < length (shapeArray raw)" using Cons.prems(2) ij by simp
  obtain b1 where b1: "bakeCell raw (i, j) b = Some b1" "boardOK b1" "width b1 = width b"
    "height b1 = height b"
    and g1: "\<And>x y. x < width b \<Longrightarrow> y < height b \<Longrightarrow> grid b1 ! x ! y =
              (if int x = posX (position raw) + int i \<and> int y = posY (position raw) + int j \<and>
                  isGameBlock (pieceCell raw i j)
               then pieceCell raw i j else grid b ! x ! y)"
    using bakeCell_step [OF Cons.prems(1) i, of j] by blast
  have rest: "\<forall>ij\<in>set ijs. fst ij < length (shapeArray raw)" using Cons.prems(2) by simp
  obtain b' where b': "forEach (bakeCell raw) ijs b1 = Some b'" "boardOK b'" "width b' = width b1"
    "height b' = height b1"
    and g': "\<And>x y. x < width b1 \<Longrightarrow> y < height b1 \<Longrightarrow> grid b' ! x ! y =
              (if \<exists>ij\<in>set ijs. int x = posX (position raw) + int (fst ij) \<and>
                    int y = posY (position raw) + int (snd ij) \<and>
                    isGameBlock (pieceCell raw (fst ij) (snd ij))
               then pieceCell raw (nat (int x - posX (position raw)))
                      (nat (int y - posY (position raw)))
               else grid b1 ! x ! y)"
    using Cons.IH [OF b1(2) rest] by blast
  have "grid b' ! x ! y =
              (if \<exists>ij\<in>set ((i, j) # ijs). int x = posX (position raw) + int (fst ij) \<and>
                    int y = posY (position raw) + int (snd ij) \<and>
                    isGameBlock (pieceCell raw (fst ij) (snd ij))
               then pieceCell raw (nat (int x - posX (position raw)))
                      (nat (int y - posY (position raw)))
               else grid b ! x ! y)" if xy: "x < width b" "y < height b" for x y
  proof -
    define hit where "hit ij = (int x = posX (position raw) + int (fst ij) \<and>
                    int y = posY (position raw) + int (snd ij) \<and>
                    isGameBlock (pieceCell raw (fst ij) (snd ij)))" for ij
    define v where "v = pieceCell raw (nat (int x - posX (position raw)))
                      (nat (int y - posY (position raw)))"
    have s2: "grid b' ! x ! y = (if \<exists>ij\<in>set ijs. hit ij then v else grid b1 ! x ! y)"
      using g' [of x y] xy b1(3,4) unfolding hit_def v_def by simp
    have s1: "grid b1 ! x ! y = (if hit (i, j) then pieceCell raw i j else grid b ! x ! y)"
      using g1 [OF xy] unfolding hit_def by simp
    have hv: "hit (i, j) \<Longrightarrow> pieceCell raw i j = v"
      unfolding hit_def v_def by simp
    have "grid b' ! x ! y = (if \<exists>ij\<in>set ((i, j) # ijs). hit ij then v else grid b ! x ! y)"
      using s1 s2 hv by auto
    then show ?thesis unfolding hit_def v_def .
  qed
  then show ?case using b1 b' ij by auto
qed

lemma copyPiece_result:
  assumes "boardOK b" and "4 \<le> length (shapeArray raw)"
  shows "\<exists>b'. copyPiece raw b = Some b' \<and> boardOK b' \<and> width b' = width b \<and>
           height b' = height b \<and>
           (\<forall>x<width b. \<forall>y<height b. grid b' ! x ! y =
              (if \<exists>i<4. \<exists>j<4. int x = posX (position raw) + int i \<and>
                    int y = posY (position raw) + int j \<and> isGameBlock (pieceCell raw i j)
               then pieceCell raw (nat (int x - posX (position raw)))
                      (nat (int y - posY (position raw)))
               else grid b ! x ! y))"
proof -
  have r: "\<forall>ij\<in>set (List.product [0..<4] [0..<4]). fst ij < length (shapeArray raw)"
    using assms(2) by auto
  obtain b' where b': "copyPiece raw b = Some b'" "boardOK b'" "width b' = width b"
    "height b' = height b"
    and g': "\<And>x y. x < width b \<Longrightarrow> y < height b \<Longrightarrow> grid b' ! x ! y =
              (if \<exists>ij\<in>set (List.product [0..<4] [0..<4]).
                    int x = posX (position raw) + int (fst ij) \<and>
                    int y = posY (position raw) + int (snd ij) \<and>
                    isGameBlock (pieceCell raw (fst ij) (snd ij))
               then pieceCell raw (nat (int x - posX (position raw)))
                      (nat (int y - posY (position raw)))
               else grid b ! x ! y)"
    using bake_loop [OF assms(1) r] unfolding copyPiece_def pieceHeight_def pieceWidth_def
    by blast
  have e: "(\<exists>ij\<in>set (List.product [0..<4] [0..<4]).
                    int x = posX (position raw) + int (fst ij) \<and>
                    int y = posY (position raw) + int (snd ij) \<and>
                    isGameBlock (pieceCell raw (fst ij) (snd ij)))
           = (\<exists>i<4. \<exists>j<4. int x = posX (position raw) + int i \<and>
                    int y = posY (position raw) + int j \<and> isGameBlock (pieceCell raw i j))"
    for x y
    by (auto simp: Bex_def)
  show ?thesis using b' g' unfolding e by blast
qed

lemma lineComplete_total:
  "\<forall>i\<in>set cols. i < length g \<Longrightarrow> \<exists>c. lineComplete g j cols = Some c"
  by (induction cols) auto

lemma scanLines_total:
  assumes "length (grid b) = width b"
  shows "\<exists>ls. scanLines b js acc = Some ls \<and> length ls \<le> length acc + length js"
proof (induction js arbitrary: acc)
  case Nil
  then show ?case by simp
next
  case (Cons j js)
  obtain c where c: "lineComplete (grid b) j [0..<width b] = Some c"
    using lineComplete_total [of "[0..<width b]" "grid b" j] assms by auto
  obtain ls where "scanLines b js (if c then acc @ [j] else acc) = Some ls"
    "length ls \<le> length (if c then acc @ [j] else acc) + length js"
    using Cons.IH by blast
  then show ?case using c by (auto split: if_splits)
qed

lemma checkLines_total:
  assumes "length (grid b) = width b"
  shows "\<exists>ls. checkLines b (Some p) = Some ls \<and> length ls \<le> 4"
proof -
  have "length [posY (position p)..posY (position p) + int pieceHeight - 1] = 4"
    by (simp add: pieceHeight_def)
  then show ?thesis
    using scanLines_total [OF assms, of "[posY (position p)..posY (position p) + int pieceHeight - 1]" "[]"]
    by (auto simp: checkLines_def Let_def)
qed

lemma score_addScore: "score (addScore v g) = js_add (score g) v"
  by (simp add: addScore_def Let_def resetTimer_def armTicker_def clearInterval_def
      split: option.splits)

lemma isPaused_addScore: "isPaused (addScore v g) = isPaused g"
  by (simp add: addScore_def Let_def resetTimer_def armTicker_def clearInterval_def
      split: option.splits)

lemma clearLines_total:
  assumes "length (grid (gameBoard g)) = width (gameBoard g)"
  shows "\<exists>g'. clearLines ls g = Some g' \<and> isPaused g' = isPaused g \<and>
           score g' = (if ls = [] then score g
                       else js_add (score g)
                              (js_mul (tableAt pointsAwardedForLines (length ls - 1))
                                      (Num (int (difficulty g) + 1))))"
  using assms
  by (simp add: clearLines_def Let_def gameBoard_addScore collapse_all score_addScore
      isPaused_addScore)

lemma score_selectNextPiece: "\<not> isPaused g \<Longrightarrow> score (selectNextPiece g) = score g"
  by (subst selectNextPiece.simps)
     (simp add: Let_def getRandomPiece_def togglePause_not_paused clearInterval_def
        split: option.splits)

lemma bakePiece_steps:
  assumes "boardOK (gameBoard g)" and "gamePiece g = Some p" and "4 \<le> length (shapeArray p)"
  shows "\<exists>b1 ls g2. copyPiece p (gameBoard g) = Some b1 \<and> checkLines b1 (Some q) = Some ls \<and>
           clearLines ls (g\<lparr>gameBoard := b1\<rparr>) = Some g2 \<and>
           bakePiece (Some q) g = Some (selectNextPiece g2) \<and> length ls \<le> 4 \<and>
           isPaused g2 = isPaused g \<and>
           score g2 = (if ls = [] then score g
                       else js_add (score g)
                              (js_mul (tableAt pointsAwardedForLines (length ls - 1))
                                      (Num (int (difficulty g) + 1))))"
proof -
  obtain b1 where b1: "copyPiece p (gameBoard g) = Some b1" "boardOK b1"
    using copyPiece_result [OF assms(1,3)] by blast
  have w: "length (grid b1) = width b1" using b1(2) by (simp add: boardOK_def)
  obtain ls where ls: "checkLines b1 (Some q) = Some ls" "length ls \<le> 4"
    using checkLines_total [OF w] by blast
  have w': "length (grid (gameBoard (g\<lparr>gameBoard := b1\<rparr>))) = width (gameBoard (g\<lparr>gameBoard := b1\<rparr>))"
    using w by simp
  obtain g2 where g2: "clearLines ls (g\<lparr>gameBoard := b1\<rparr>) = Some g2"
    "isPaused g2 = isPaused (g\<lparr>gameBoard := b1\<rparr>)"
     "score g2 = (if ls = [] then score (g\<lparr>gameBoard := b1\<rparr>)
                       else js_add (score (g\<lparr>gameBoard := b1\<rparr>))
                              (js_mul (tableAt pointsAwardedForLines (length ls - 1))
                                      (Num (int (difficulty (g\<lparr>gameBoard := b1\<rparr>)) + 1))))"
    using clearLines_total [OF w', of ls] by blast
  have "bakePiece (Some q) g = Some (selectNextPiece g2)"
    using assms(2) b1(1) ls(1) g2(1) by (simp add: bakePiece_def)
  then show ?thesis using b1 ls g2 by simp
qed

text \<open>
  C6, as stated, fails for a bake in a paused game whose next spawn fails. In the game
  started on the board of 1 by 4 cells the ticker runs although the game is paused and
  over; the piece cannot move down, so the tick bakes it. The bake completes row 1 and
  \<^verbatim>\<open>clearLines\<close> adds 40 points; the next spawn fails, \<^verbatim>\<open>togglePause\<close> finds the game paused
  and over and resets it, and the bake returns with the score 0.
\<close>

theorem bakePiece_score_counterexample:
  "boardOK (gameBoard gameNarrow) \<and> gamePiece gameNarrow = Some pieceNarrow \<and>
   4 \<le> length (shapeArray pieceNarrow) \<and> score gameNarrow = Num 0 \<and>
   difficulty gameNarrow = 0 \<and> isPaused gameNarrow \<and> isGameOver gameNarrow \<and>
   ticker gameNarrow = Some 1 \<and> intervals gameNarrow 1 = Some 1000 \<and>
   \<not> isValidMove (gameBoard gameNarrow) pieceNarrow ''down'' \<and>
   checkLines (the (copyPiece pieceNarrow (gameBoard gameNarrow))) (Some pieceNarrow) = Some [1] \<and>
   bakePiece (Some pieceNarrow) gameNarrow \<noteq> None \<and>
   score (the (bakePiece (Some pieceNarrow) gameNarrow)) = Num 0 \<and>
   score (the (bakePiece (Some pieceNarrow) gameNarrow)) \<noteq> Num (0 + pointsAwardedForLines ! 0 * (0 + 1))"
  by code_simp

text \<open>
  C6, amended: in a game that is not paused, with a level of at most 9 and a score from 0
  to \<open>2 ^ 53 - 12000\<close> (where the additions of the code are exact), a bake of the game's
  piece (its shape array computed, the board well-formed) completes at most 4 lines. If
  it completes \<open>n \<ge> 1\<close> lines at level \<open>d\<close>, the score after \<^verbatim>\<open>bakePiece\<close> is the score
  before plus \<^verbatim>\<open>pointsAwardedForLines[n - 1] * (d + 1)\<close>; if it completes none, the score
  after \<^verbatim>\<open>bakePiece\<close> is the score before.
\<close>

theorem bakePiece_score:
  assumes "boardOK (gameBoard g)" and "gamePiece g = Some p" and "4 \<le> length (shapeArray p)"
    and "score g = Num s" and "0 \<le> s" and "s \<le> 2 ^ 53 - 12000" and "difficulty g \<le> 9"
    and "\<not> isPaused g"
  shows "\<exists>b1 ls g'. copyPiece p (gameBoard g) = Some b1 \<and> checkLines b1 (Some p) = Some ls \<and>
           bakePiece (Some p) g = Some g' \<and> length ls \<le> 4 \<and>
           (ls = [] \<longrightarrow> score g' = Num s) \<and>
           (ls \<noteq> [] \<longrightarrow>
              score g' = Num (s + pointsAwardedForLines ! (length ls - 1)
                                    * (int (difficulty g) + 1)))"
proof -
  obtain b1 ls g2 where st: "copyPiece p (gameBoard g) = Some b1"
    "checkLines b1 (Some p) = Some ls" "clearLines ls (g\<lparr>gameBoard := b1\<rparr>) = Some g2"
    "bakePiece (Some p) g = Some (selectNextPiece g2)" "length ls \<le> 4"
    "isPaused g2 = isPaused g"
    and sc: "score g2 = (if ls = [] then score g
                       else js_add (score g)
                              (js_mul (tableAt pointsAwardedForLines (length ls - 1))
                                      (Num (int (difficulty g) + 1))))"
    using bakePiece_steps [OF assms(1-3), of p] by blast
  have keep: "score (selectNextPiece g2) = score g2"
    using assms(8) st(6) by (intro score_selectNextPiece) simp
  have "score g2 = Num (s + pointsAwardedForLines ! (length ls - 1) * (int (difficulty g) + 1))"
    if "ls \<noteq> []"
  proof -
    have "length ls - 1 < length pointsAwardedForLines"
      using st(5) that by (cases ls) (simp_all add: pointsAwardedForLines_def)
    then show ?thesis using sc that assms(4) by (simp add: tableAt_def)
  qed
  moreover have "score g2 = Num s" if "ls = []" using sc that assms(4) by simp
  ultimately show ?thesis using st keep by auto
qed

lemma boardOK_new: "boardOK (newGameBoard w h)"
  by (simp add: boardOK_def newGameBoard_def list_all_length)

theorem bakePiece_score_witness:
  "boardOK (gameBoard gameLine) \<and> gamePiece gameLine = Some pieceLine \<and>
   4 \<le> length (shapeArray pieceLine) \<and> score gameLine = Num 1000 \<and>
   (0::int) \<le> 1000 \<and> (1000::int) \<le> 2 ^ 53 - 12000 \<and> difficulty gameLine \<le> 9 \<and>
   \<not> isPaused gameLine \<and> difficulty gameLine = 2 \<and>
   checkLines (the (copyPiece pieceLine (gameBoard gameLine))) (Some pieceLine) = Some [3] \<and>
   bakePiece (Some pieceLine) gameLine \<noteq> None \<and>
   score (the (bakePiece (Some pieceLine) gameLine)) = Num 1120"
proof -
  have h1: "boardOK (gameBoard gameLine)" by (simp add: gameLine_def boardOK_new)
  have h2: "gamePiece gameLine = Some pieceLine" by (simp add: gameLine_def)
  have h3: "4 \<le> length (shapeArray pieceLine)" by code_simp
  have h4: "score gameLine = Num 1000" by (simp add: gameLine_def)
  have h5: "(0::int) \<le> 1000" by simp
  have h6: "(1000::int) \<le> 2 ^ 53 - 12000" by simp
  have h7: "difficulty gameLine \<le> 9" by (simp add: gameLine_def)
  have h8: "\<not> isPaused gameLine" by (simp add: gameLine_def game0_def)
  have d: "difficulty gameLine = 2" by (simp add: gameLine_def)
  have c: "checkLines (the (copyPiece pieceLine (gameBoard gameLine))) (Some pieceLine) = Some [3]"
    by code_simp
  have t: "pointsAwardedForLines ! 0 = 40" by (simp add: pointsAwardedForLines_def)
  obtain b1 ls g' where r: "copyPiece pieceLine (gameBoard gameLine) = Some b1"
    "checkLines b1 (Some pieceLine) = Some ls" "bakePiece (Some pieceLine) gameLine = Some g'"
    "ls \<noteq> [] \<longrightarrow> score g' = Num (1000 + pointsAwardedForLines ! (length ls - 1)
                                    * (int (difficulty gameLine) + 1))"
    using bakePiece_score [OF h1 h2 h3 h4 h5 h6 h7 h8] by blast
  have "ls = [3]" using r(1,2) c by simp
  then have "score g' = Num 1120" using r(4) d t by simp
  then show ?thesis using h1 h2 h3 h4 h6 h7 h8 d c r(3) by simp
qed

text \<open>
  The copy loops of \<^verbatim>\<open>bakePiece\<close> read \<^verbatim>\<open>this.game.gamePiece\<close>, not the argument:
  when the vertical I is passed while the O is in play, the cells of the O are merged and
  the cell (2, 16) under the I stays empty.
\<close>

lemma bakePiece_reads_game_piece:
  "gamePiece game0 \<noteq> Some (piece_i1\<lparr>position := \<lparr>posX = 0, posY = 16\<rparr>\<rparr>) \<and>
   pieceCell (piece_i1\<lparr>position := \<lparr>posX = 0, posY = 16\<rparr>\<rparr>) 2 0 = GameBlock 0 \<and>
   bakePiece (Some (piece_i1\<lparr>position := \<lparr>posX = 0, posY = 16\<rparr>\<rparr>)) game0 \<noteq> None \<and>
   grid (gameBoard (the (bakePiece (Some (piece_i1\<lparr>position := \<lparr>posX = 0, posY = 16\<rparr>\<rparr>))
                           game0))) ! 2 ! 16 = Zero \<and>
   grid (gameBoard (the (bakePiece (Some (piece_i1\<lparr>position := \<lparr>posX = 0, posY = 16\<rparr>\<rparr>))
                           game0))) ! 4 ! 18 = GameBlock 3"
  by code_simp

text \<open>
  C1, as stated, fails for a piece with occupied cells off the board. On a board of height
  1 the I that has just failed to spawn is the game's piece; its four cells are in row 1,
  and baking it copies none of them: the board is the same afterwards.
\<close>

theorem bakePiece_off_board_counterexample:
  "gamePiece gameFlat = Some pieceSpawn \<and> position pieceSpawn = \<lparr>posX = 3, posY = 0\<rparr> \<and>
   pieceCell pieceSpawn 0 1 = GameBlock 0 \<and> pieceCell pieceSpawn 1 1 = GameBlock 0 \<and>
   pieceCell pieceSpawn 2 1 = GameBlock 0 \<and> pieceCell pieceSpawn 3 1 = GameBlock 0 \<and>
   copyPiece pieceSpawn (gameBoard gameFlat) = Some (gameBoard gameFlat) \<and>
   bakePiece (Some pieceSpawn) gameFlat \<noteq> None \<and>
   gameBoard (the (bakePiece (Some pieceSpawn) gameFlat)) = gameBoard gameFlat"
  by code_simp

text \<open>
  C1, amended: when the piece passed is the game's piece (as at every call in the source;
  its shape array computed, the board well-formed), \<^verbatim>\<open>bakePiece\<close> first merges it into the
  grid: every occupied cell \<open>(i, j)\<close> of the piece whose board coordinate
  \<open>(x + i, y + j)\<close> is on the board is copied there, and every grid cell that is not such a
  coordinate keeps its content. Line detection, clearing and the next spawn continue from
  that grid.
\<close>

theorem bakePiece_copies_piece:
  assumes "boardOK (gameBoard g)" and "gamePiece g = Some p" and "4 \<le> length (shapeArray p)"
  shows "\<exists>b1 ls g2. copyPiece p (gameBoard g) = Some b1 \<and> checkLines b1 (Some p) = Some ls \<and>
           clearLines ls (g\<lparr>gameBoard := b1\<rparr>) = Some g2 \<and>
           bakePiece (Some p) g = Some (selectNextPiece g2) \<and>
           (\<forall>i<4. \<forall>j<4.
              isGameBlock (pieceCell p i j) \<and>
              isOnBoard (gameBoard g) (posX (position p) + int i) (posY (position p) + int j) \<longrightarrow>
              grid b1 ! nat (posX (position p) + int i) ! nat (posY (position p) + int j)
                = pieceCell p i j) \<and>
           (\<forall>x<width (gameBoard g). \<forall>y<height (gameBoard g).
              (\<forall>i<4. \<forall>j<4. isGameBlock (pieceCell p i j) \<longrightarrow>
                 \<not> (int x = posX (position p) + int i \<and> int y = posY (position p) + int j)) \<longrightarrow>
              grid b1 ! x ! y = grid (gameBoard g) ! x ! y)"
proof -
  obtain b1 ls g2 where st: "copyPiece p (gameBoard g) = Some b1"
    "checkLines b1 (Some p) = Some ls" "clearLines ls (g\<lparr>gameBoard := b1\<rparr>) = Some g2"
    "bakePiece (Some p) g = Some (selectNextPiece g2)"
    using bakePiece_steps [OF assms, of p] by blast
  have cells: "grid b1 ! x ! y =
              (if \<exists>i<4. \<exists>j<4. int x = posX (position p) + int i \<and>
                    int y = posY (position p) + int j \<and> isGameBlock (pieceCell p i j)
               then pieceCell p (nat (int x - posX (position p)))
                      (nat (int y - posY (position p)))
               else grid (gameBoard g) ! x ! y)"
    if "x < width (gameBoard g)" "y < height (gameBoard g)" for x y
    using copyPiece_result [OF assms(1,3)] st(1) that by auto
  have a: "grid b1 ! nat (posX (position p) + int i) ! nat (posY (position p) + int j)
                = pieceCell p i j"
    if "i < 4" "j < 4" "isGameBlock (pieceCell p i j)"
      "isOnBoard (gameBoard g) (posX (position p) + int i) (posY (position p) + int j)" for i j
  proof -
    let ?x = "nat (posX (position p) + int i)" and ?y = "nat (posY (position p) + int j)"
    have on: "?x < width (gameBoard g)" "?y < height (gameBoard g)"
      "int ?x = posX (position p) + int i" "int ?y = posY (position p) + int j"
      using that(4) by (auto simp: isOnBoard_boardOK [OF assms(1)])
    have "\<exists>i<4. \<exists>j<4. int ?x = posX (position p) + int i \<and>
                    int ?y = posY (position p) + int j \<and> isGameBlock (pieceCell p i j)"
      using that(1-3) on(3,4) by blast
    then have "grid b1 ! ?x ! ?y = pieceCell p (nat (int ?x - posX (position p)))
                      (nat (int ?y - posY (position p)))"
      using cells [OF on(1,2)] by simp
    then show ?thesis using on(3,4) by simp
  qed
  have b: "grid b1 ! x ! y = grid (gameBoard g) ! x ! y"
    if "x < width (gameBoard g)" "y < height (gameBoard g)"
      "\<forall>i<4. \<forall>j<4. isGameBlock (pieceCell p i j) \<longrightarrow>
                 \<not> (int x = posX (position p) + int i \<and> int y = posY (position p) + int j)"
    for x y
    using cells [OF that(1,2)] that(3) by auto
  show ?thesis using st a b by blast
qed

text \<open>
  C10: baking the game's piece (its shape array computed, the board well-formed) leaves
  the grid with its \<^verbatim>\<open>width\<close> columns of \<^verbatim>\<open>height\<close> cells, so no write went out of range;
  a grid cell changes only where an occupied cell of the piece lies on it, so occupied
  cells off the board are skipped; and \<^verbatim>\<open>bakePiece\<close> does not throw, wherever the piece is.
\<close>

theorem bakePiece_in_bounds:
  assumes "boardOK (gameBoard g)" and "gamePiece g = Some p" and "4 \<le> length (shapeArray p)"
  shows "\<exists>b1. copyPiece p (gameBoard g) = Some b1 \<and> boardOK b1 \<and>
           width b1 = width (gameBoard g) \<and> height b1 = height (gameBoard g) \<and>
           (\<forall>x<width (gameBoard g). \<forall>y<height (gameBoard g).
              grid b1 ! x ! y \<noteq> grid (gameBoard g) ! x ! y \<longrightarrow>
              (\<exists>i<4. \<exists>j<4. int x = posX (position p) + int i \<and>
                 int y = posY (position p) + int j \<and> grid b1 ! x ! y = pieceCell p i j \<and>
                 isGameBlock (pieceCell p i j))) \<and>
           bakePiece (Some p) g \<noteq> None"
proof -
  obtain b1 where b1: "copyPiece p (gameBoard g) = Some b1" "boardOK b1"
    "width b1 = width (gameBoard g)" "height b1 = height (gameBoard g)"
    and cells: "\<And>x y. x < width (gameBoard g) \<Longrightarrow> y < height (gameBoard g) \<Longrightarrow>
       grid b1 ! x ! y =
              (if \<exists>i<4. \<exists>j<4. int x = posX (position p) + int i \<and>
                    int y = posY (position p) + int j \<and> isGameBlock (pieceCell p i j)
               then pieceCell p (nat (int x - posX (position p)))
                      (nat (int y - posY (position p)))
               else grid (gameBoard g) ! x ! y)"
    using copyPiece_result [OF assms(1,3)] by blast
  have "\<exists>i<4. \<exists>j<4. int x = posX (position p) + int i \<and>
                 int y = posY (position p) + int j \<and> grid b1 ! x ! y = pieceCell p i j \<and>
                 isGameBlock (pieceCell p i j)"
    if h: "x < width (gameBoard g)" "y < height (gameBoard g)"
      "grid b1 ! x ! y \<noteq> grid (gameBoard g) ! x ! y" for x y
  proof -
    obtain i j where ij: "i < 4" "j < 4" "int x = posX (position p) + int i"
      "int y = posY (position p) + int j" "isGameBlock (pieceCell p i j)"
      using cells [OF h(1,2)] h(3) by (auto split: if_splits)
    then have "grid b1 ! x ! y = pieceCell p (nat (int x - posX (position p)))
                      (nat (int y - posY (position p)))"
      using cells [OF h(1,2)] by auto
    then have "grid b1 ! x ! y = pieceCell p i j" using ij(3,4) by simp
    then show ?thesis using ij by blast
  qed
  moreover have "bakePiece (Some p) g \<noteq> None"
    using bakePiece_steps [OF assms, of p] by auto
  ultimately show ?thesis using b1 by blast
qed

theorem bakePiece_copies_piece_witness:
  "boardOK (gameBoard game0) \<and> gamePiece game0 = Some piece_o \<and>
   4 \<le> length (shapeArray piece_o) \<and>
   (\<exists>b1. copyPiece piece_o (gameBoard game0) = Some b1 \<and>
      grid b1 ! 4 ! 18 = GameBlock 3 \<and> grid b1 ! 5 ! 19 = GameBlock 3 \<and>
      grid b1 ! 6 ! 19 = Zero)"
proof -
  have h1: "boardOK (gameBoard game0)" by (simp add: game0_def boardOK_new)
  have h2: "gamePiece game0 = Some piece_o" by (simp add: game0_def)
  have h3: "4 \<le> length (shapeArray piece_o)" by code_simp
  have p: "position piece_o = \<lparr>posX = 4, posY = 18\<rparr>" by code_simp
  have c: "pieceCell piece_o 0 0 = GameBlock 3" "pieceCell piece_o 1 1 = GameBlock 3"
    by code_simp+
  have on: "isOnBoard (gameBoard game0) 4 18" "isOnBoard (gameBoard game0) 5 19"
    by code_simp+
  have w: "width (gameBoard game0) = 10" "height (gameBoard game0) = 20"
    "grid (gameBoard game0) ! 6 ! 19 = Zero"
    by (simp_all add: game0_def newGameBoard_def)
  have free: "\<forall>i<4. \<forall>j<4. isGameBlock (pieceCell piece_o i j) \<longrightarrow>
                 \<not> (int (6::nat) = posX (position piece_o) + int i \<and>
                    int (19::nat) = posY (position piece_o) + int j)"
    unfolding p by (simp add: All_less_Suc numeral_eq_Suc) code_simp
  obtain b1 where b1: "copyPiece piece_o (gameBoard game0) = Some b1"
    and a: "\<And>i j. i < 4 \<Longrightarrow> j < 4 \<Longrightarrow> isGameBlock (pieceCell piece_o i j) \<Longrightarrow>
              isOnBoard (gameBoard game0) (posX (position piece_o) + int i)
                (posY (position piece_o) + int j) \<Longrightarrow>
              grid b1 ! nat (posX (position piece_o) + int i) ! nat (posY (position piece_o) + int j)
                = pieceCell piece_o i j"
    and b: "\<And>x y. x < width (gameBoard game0) \<Longrightarrow> y < height (gameBoard game0) \<Longrightarrow>
              (\<forall>i<4. \<forall>j<4. isGameBlock (pieceCell piece_o i j) \<longrightarrow>
                 \<not> (int x = posX (position piece_o) + int i \<and>
                    int y = posY (position piece_o) + int j)) \<Longrightarrow>
              grid b1 ! x ! y = grid (gameBoard game0) ! x ! y"
    using bakePiece_copies_piece [OF h1 h2 h3] by blast
  have "grid b1 ! 4 ! 18 = GameBlock 3"
    using a [of 0 0] c on by (simp add: p)
  moreover have "grid b1 ! 5 ! 19 = GameBlock 3"
    using a [of 1 1] c on by (simp add: p)
  moreover have "grid b1 ! 6 ! 19 = Zero"
    using b [of 6 19, OF _ _ free] w by simp
  ultimately show ?thesis using h1 h2 h3 b1 by blast
qed

theorem bakePiece_in_bounds_witness:
  "boardOK (gameBoard (game0\<lparr>gamePiece := Some pieceCorner\<rparr>)) \<and>
   gamePiece (game0\<lparr>gamePiece := Some pieceCorner\<rparr>) = Some pieceCorner \<and>
   4 \<le> length (shapeArray pieceCorner) \<and>
   isGameBlock (pieceCell pieceCorner 1 1) \<and>
   \<not> isOnBoard (gameBoard (game0\<lparr>gamePiece := Some pieceCorner\<rparr>))
       (posX (position pieceCorner) + 1) (posY (position pieceCorner) + 1) \<and>
   (\<exists>b1. copyPiece pieceCorner (gameBoard (game0\<lparr>gamePiece := Some pieceCorner\<rparr>)) = Some b1 \<and>
      boardOK b1 \<and> width b1 = 10 \<and> height b1 = 20) \<and>
   bakePiece (Some pieceCorner) (game0\<lparr>gamePiece := Some pieceCorner\<rparr>) \<noteq> None"
proof -
  let ?g = "game0\<lparr>gamePiece := Some pieceCorner\<rparr>"
  have h1: "boardOK (gameBoard ?g)" by (simp add: game0_def boardOK_new)
  have h2: "gamePiece ?g = Some pieceCorner" by simp
  have h3: "4 \<le> length (shapeArray pieceCorner)" by code_simp
  have c: "isGameBlock (pieceCell pieceCorner 1 1)" by code_simp
  have off: "\<not> isOnBoard (gameBoard ?g) (posX (position pieceCorner) + 1)
                (posY (position pieceCorner) + 1)"
    by code_simp
  have w: "width (gameBoard ?g) = 10" "height (gameBoard ?g) = 20"
    by (simp_all add: game0_def newGameBoard_def)
  show ?thesis
    using bakePiece_in_bounds [OF h1 h2 h3] h1 h2 h3 c off unfolding w by blast
qed

subsection \<open>\<^verbatim>\<open>isValidMove\<close> changes nothing\<close>

lemma isValidMove_s_run:
  assumes al: "allocated s piece" and rd: "readPiece s piece = Some p"
  shows "\<exists>s'. isValidMove_s piece direction s = Some (isValidMove (liveBoard s) p direction, s') \<and>
           liveBoard s' = liveBoard s \<and>
           (\<forall>r<nextRef s. pieceObjects s' r = pieceObjects s r \<and>
                          positionObjects s' r = positionObjects s r \<and>
                          arrayObjects s' r = arrayObjects s r)"
proof -
  obtain ob where ob: "pieceObjects s piece = Some ob" "piece < nextRef s"
    "shapeArrayRef ob < nextRef s" "positionRef ob < nextRef s"
    using al by (auto simp: allocated_def split: option.splits)
  obtain arr where p: "shapeDescriptionOf ob = Some (shapeDescription p)"
    "rotationOf ob = rotation p" "arrayObjects s (shapeArrayRef ob) = Some arr"
    "positionObjects s (positionRef ob) = Some (position p)"
    using rd ob(1) by (auto simp: readPiece_def split: option.splits)
  note defs = isValidMove_s_def newGamePiece_s_def rotate_s_def move_s_def computeShape_s_def
    readPiece_def isValidMove_def simulate_def clonePiece_def rotatePiece_def move_def
    computeShape_def Let_def
  consider "direction = ''rotate''" | "direction = ''left''" | "direction = ''right''"
    | "direction = ''down''"
    | "direction \<noteq> ''rotate''" "direction \<noteq> ''left''" "direction \<noteq> ''right''"
      "direction \<noteq> ''down''"
    by blast
  then show ?thesis
  proof cases
    case 1
    then show ?thesis using ob p by (simp add: defs)
  next
    case 2
    then show ?thesis using ob p by (simp add: defs)
  next
    case 3
    then show ?thesis using ob p by (simp add: defs)
  next
    case 4
    then show ?thesis using ob p by (simp add: defs)
  next
    case 5
    then show ?thesis using ob p by (simp add: defs)
  qed
qed

lemma readPiece_frame:
  assumes "allocated s piece"
    and "\<forall>r<nextRef s. pieceObjects s' r = pieceObjects s r \<and>
                          positionObjects s' r = positionObjects s r \<and>
                          arrayObjects s' r = arrayObjects s r"
  shows "readPiece s' piece = readPiece s piece"
  using assms by (auto simp: allocated_def readPiece_def split: option.splits)

text \<open>
  C4: for every store, every piece allocated in it and every action, \<^verbatim>\<open>isValidMove\<close>
  returns (with the answer of the value-level \<open>isValidMove\<close>), the board is unchanged, and
  every object that existed before the call is unchanged: the piece objects, the position
  objects and the shape arrays. In particular the piece passed reads back with the same
  description, rotation, position and shape array. All writes go to the clone, its new
  position object and its new arrays.
\<close>

theorem isValidMove_leaves_state:
  assumes "allocated s piece" and "readPiece s piece = Some p"
  shows "\<exists>s'. isValidMove_s piece direction s = Some (isValidMove (liveBoard s) p direction, s') \<and>
           liveBoard s' = liveBoard s \<and> readPiece s' piece = Some p \<and>
           (\<forall>r<nextRef s. pieceObjects s' r = pieceObjects s r \<and>
                          positionObjects s' r = positionObjects s r \<and>
                          arrayObjects s' r = arrayObjects s r)"
proof -
  obtain s' where s': "isValidMove_s piece direction s
        = Some (isValidMove (liveBoard s) p direction, s')"
    "liveBoard s' = liveBoard s"
    and fr: "\<forall>r<nextRef s. pieceObjects s' r = pieceObjects s r \<and>
                          positionObjects s' r = positionObjects s r \<and>
                          arrayObjects s' r = arrayObjects s r"
    using isValidMove_s_run [OF assms] by blast
  have "readPiece s' piece = Some p"
    using readPiece_frame [OF assms(1) fr] assms(2) by simp
  then show ?thesis using s' fr by blast
qed

theorem isValidMove_leaves_state_witness:
  "allocated store0 0 \<and> readPiece store0 0 = Some piece_t1 \<and>
   isValidMove (liveBoard store0) piece_t1 ''rotate'' \<and>
   \<not> isValidMove (liveBoard store0) (piece_t1\<lparr>position := \<lparr>posX = 3, posY = 17\<rparr>\<rparr>) ''down'' \<and>
   (\<exists>s'. isValidMove_s 0 ''rotate'' store0 = Some (True, s') \<and>
      liveBoard s' = newGameBoard 10 20 \<and> readPiece s' 0 = Some piece_t1)"
proof -
  have h1: "allocated store0 0" by (simp add: allocated_def store0_def)
  have h2: "readPiece store0 0 = Some piece_t1"
    by (simp add: readPiece_def store0_def piece_t1_def computeShape_def newGamePiece_def)
  have v: "isValidMove (liveBoard store0) piece_t1 ''rotate''" by code_simp
  have v2: "\<not> isValidMove (liveBoard store0) (piece_t1\<lparr>position := \<lparr>posX = 3, posY = 17\<rparr>\<rparr>) ''down''"
    by code_simp
  have b: "liveBoard store0 = newGameBoard 10 20" by (simp add: store0_def)
  show ?thesis
    using isValidMove_leaves_state [OF h1 h2, of "''rotate''"] h1 h2 v v2 b by auto
qed


end
